theory Spec2Isabelle
  imports Main "HOL-Library.Word" "HOL-Library.AList"
begin

section \<open>The InstaSlice pod controller\<close>

text \<open>
  A shallow embedding of \<^verbatim>\<open>internal/controller/instaslice_controller.go\<close>: the
  reconcile pass of the controller that binds a gated pod to a GPU slice, with the
  Kubernetes client it talks to modelled as an explicit store.

  Conventions.
  \<^item> A Go struct is a record, a Go string-typed enumeration is a datatype.
  \<^item> A Go map is an association list under an option: \<open>None\<close> is the nil map. The
    order of the list stands for the order in which one \<^verbatim>\<open>range\<close> loop visits the
    entries (Go leaves it unspecified).
  \<^item> The API server is the record \<open>world\<close>: the stored pods, the stored Instaslice
    objects, and a script of injected faults. Every client call consumes one entry of
    the script; \<open>True\<close> makes the call fail with an error that is not NotFound. An
    empty script means every call goes through.
  \<^item> A pass returns an \<open>outcome\<close> (the \<^verbatim>\<open>ctrl.Result\<close> and the error, or a
    panic) together with the world it leaves behind.
  \<^item> Durations and instants are nanoseconds, as in Go's \<^verbatim>\<open>time\<close> package.
\<close>

subsection \<open>Data model\<close>

datatype PodPhase = PodPending | PodRunning | PodSucceeded | PodFailed | PodUnknown | PodPhaseUnset

record PodCondition =
  Type :: string
  Status :: string
  Message :: string

record Container =
  ContainerName :: string
  Limits :: "(string \<times> string) list"

type_synonym 'v gomap = "(string \<times> 'v) list option"

record Pod =
  Namespace :: string
  Name :: string
  UID :: string
  Finalizers :: "string list"
  DeletionTimestamp :: "int option"
  SchedulingGates :: "string list"
  NodeSelector :: "string gomap"
  Containers :: "Container list"
  Phase :: PodPhase
  Conditions :: "PodCondition list"

text \<open>The zero value \<^verbatim>\<open>v1.Pod{}\<close>.\<close>

definition Pod_zero :: Pod where
  "Pod_zero = \<lparr>Namespace = [], Name = [], UID = [], Finalizers = [], DeletionTimestamp = None,
     SchedulingGates = [], NodeSelector = None, Containers = [], Phase = PodPhaseUnset,
     Conditions = []\<rparr>"

datatype AllocationStatus =
    AllocationStatusCreating | AllocationStatusCreated | AllocationStatusUngated
  | AllocationStatusDeleting | AllocationStatusDeleted | AllocationStatusUnset

text \<open>
  \<^verbatim>\<open>inferencev1alpha1.AllocationDetails\<close>, with the fields the controller writes in
  \<^verbatim>\<open>FirstFitPolicy.SetAllocationDetails\<close>. The Go field \<^verbatim>\<open>Namespace\<close> is
  \<open>AllocNamespace\<close> here.
\<close>

record AllocationDetails =
  Profile :: string
  Start :: "32 word"
  Size :: "32 word"
  PodUUID :: string
  Nodename :: string
  Allocationstatus :: AllocationStatus
  AllocNamespace :: string
  PodName :: string
  GPUUUID :: string
  Resourceidentifier :: string
  Cpu :: "64 word"
  Memory :: "64 word"

text \<open>The zero value \<^verbatim>\<open>inferencev1alpha1.AllocationDetails{}\<close>.\<close>

definition AllocationDetails_zero :: AllocationDetails where
  "AllocationDetails_zero = \<lparr>Profile = [], Start = 0, Size = 0, PodUUID = [], Nodename = [],
     Allocationstatus = AllocationStatusUnset, AllocNamespace = [], PodName = [], GPUUUID = [],
     Resourceidentifier = [], Cpu = 0, Memory = 0\<rparr>"

text \<open>
  \<^verbatim>\<open>inferencev1alpha1.PreparedDetails\<close>: the controller reads \<^verbatim>\<open>Parent\<close>,
  \<^verbatim>\<open>Size\<close> and \<^verbatim>\<open>Start\<close> (here \<open>PreparedSize\<close>, \<open>PreparedStart\<close>).
\<close>

record PreparedDetails =
  Parent :: string
  PreparedSize :: "32 word"
  PreparedStart :: "32 word"
  PreparedPodUUID :: string

record Instaslice =
  InstasliceNamespace :: string
  InstasliceName :: string
  Allocations :: "AllocationDetails gomap"
  Prepared :: "PreparedDetails gomap"

record Result =
  Requeue :: bool
  RequeueAfter :: int

datatype error = NotFound | ClientError | Errorf string

datatype panic = IndexOutOfRange | SliceBoundsOutOfRange | NilMapAssignment

datatype outcome = Returned Result "error option" | Panicked panic

abbreviation Second :: int where
  "Second \<equiv> 1000000000"

text \<open>\<^verbatim>\<open>ctrl.Result{}\<close>.\<close>

definition Result_zero :: Result where
  "Result_zero = \<lparr>Requeue = False, RequeueAfter = 0\<rparr>"

text \<open>
  The package constants and the placement search are declared in files of the package
  other than the controller; they are parameters of the model.
  \<open>findNodeAndDeviceForASlice\<close> is applied to the Instaslice object, the profile name
  and the pod (the policy argument is always \<^verbatim>\<open>FirstFitPolicy\<close>).
\<close>

record params =
  gateName :: string
  finalizerName :: string
  NodeLabel :: string
  instaSliceOperatorNamespace :: string
  findNodeAndDeviceForASlice :: "Instaslice \<Rightarrow> string \<Rightarrow> Pod \<Rightarrow> error + AllocationDetails"

text \<open>
  What one pass reads from its environment: the clock (\<^verbatim>\<open>time.Now\<close>) and the
  draw of \<^verbatim>\<open>rand.Intn(10)\<close>.
\<close>

record env =
  now :: int
  rand_draw :: nat

subsection \<open>Go maps, strings and iteration\<close>

definition map_items :: "'v gomap \<Rightarrow> (string \<times> 'v) list" where
  "map_items m = (case m of None \<Rightarrow> [] | Some kvs \<Rightarrow> kvs)"

text \<open>\<^verbatim>\<open>strings.HasPrefix\<close> and \<^verbatim>\<open>strings.Contains\<close>.\<close>

definition HasPrefix :: "string \<Rightarrow> string \<Rightarrow> bool" where
  "HasPrefix s pre = (take (length pre) s = pre)"

fun Contains :: "string \<Rightarrow> string \<Rightarrow> bool" where
  "Contains [] substr = (substr = [])"
| "Contains (c # cs) substr = (HasPrefix (c # cs) substr \<or> Contains cs substr)"

text \<open>
  A \<^verbatim>\<open>range\<close> loop whose body may return from the enclosing function: the body
  yields \<open>Inl r\<close> to return \<open>r\<close> and \<open>Inr s\<close> to go on with the loop state \<open>s\<close>.
\<close>

fun for_range :: "('a \<Rightarrow> 's \<Rightarrow> 'r + 's) \<Rightarrow> 'a list \<Rightarrow> 's \<Rightarrow> 'r + 's" where
  "for_range body [] s = Inr s"
| "for_range body (x # xs) s =
     (case body x s of Inl r \<Rightarrow> Inl r | Inr s' \<Rightarrow> for_range body xs s')"

subsection \<open>The client\<close>

record world =
  pods :: "Pod list"
  instaslices :: "Instaslice list"
  faults :: "bool list"

definition tick :: "world \<Rightarrow> bool \<times> world" where
  "tick w = (case faults w of [] \<Rightarrow> (False, w) | f # fs \<Rightarrow> (f, w\<lparr>faults := fs\<rparr>))"

definition pod_key :: "Pod \<Rightarrow> string \<times> string" where
  "pod_key p = (Namespace p, Name p)"

definition instaslice_key :: "Instaslice \<Rightarrow> string \<times> string" where
  "instaslice_key i = (InstasliceNamespace i, InstasliceName i)"

text \<open>\<^verbatim>\<open>r.Get(ctx, key, pod)\<close>.\<close>

definition Get_Pod :: "string \<times> string \<Rightarrow> world \<Rightarrow> (error + Pod) \<times> world" where
  "Get_Pod key w =
     (case tick w of
        (True, w') \<Rightarrow> (Inl ClientError, w')
      | (False, w') \<Rightarrow>
          (case find (\<lambda>p. pod_key p = key) (pods w') of
             None \<Rightarrow> (Inl NotFound, w')
           | Some p \<Rightarrow> (Inr p, w')))"

text \<open>\<^verbatim>\<open>r.Update(ctx, pod)\<close>: the stored object of the same key is replaced.\<close>

definition Update_Pod :: "Pod \<Rightarrow> world \<Rightarrow> error option \<times> world" where
  "Update_Pod p w =
     (case tick w of
        (True, w') \<Rightarrow> (Some ClientError, w')
      | (False, w') \<Rightarrow>
          if list_ex (\<lambda>q. pod_key q = pod_key p) (pods w')
          then (None, w'\<lparr>pods := map (\<lambda>q. if pod_key q = pod_key p then p else q) (pods w')\<rparr>)
          else (Some NotFound, w'))"

text \<open>\<^verbatim>\<open>r.List(ctx, podList, client.InNamespace(namespace))\<close>.\<close>

definition List_Pods :: "string \<Rightarrow> world \<Rightarrow> (error + Pod list) \<times> world" where
  "List_Pods namespace w =
     (case tick w of
        (True, w') \<Rightarrow> (Inl ClientError, w')
      | (False, w') \<Rightarrow> (Inr (filter (\<lambda>p. Namespace p = namespace) (pods w')), w'))"

text \<open>\<^verbatim>\<open>r.List(ctx, &instasliceList, &client.ListOptions{})\<close>: every namespace.\<close>

definition List_Instaslices :: "world \<Rightarrow> (error + Instaslice list) \<times> world" where
  "List_Instaslices w =
     (case tick w of
        (True, w') \<Rightarrow> (Inl ClientError, w')
      | (False, w') \<Rightarrow> (Inr (instaslices w'), w'))"

definition Get_Instaslice :: "string \<times> string \<Rightarrow> world \<Rightarrow> (error + Instaslice) \<times> world" where
  "Get_Instaslice key w =
     (case tick w of
        (True, w') \<Rightarrow> (Inl ClientError, w')
      | (False, w') \<Rightarrow>
          (case find (\<lambda>i. instaslice_key i = key) (instaslices w') of
             None \<Rightarrow> (Inl NotFound, w')
           | Some i \<Rightarrow> (Inr i, w')))"

definition Update_Instaslice :: "Instaslice \<Rightarrow> world \<Rightarrow> error option \<times> world" where
  "Update_Instaslice i w =
     (case tick w of
        (True, w') \<Rightarrow> (Some ClientError, w')
      | (False, w') \<Rightarrow>
          if list_ex (\<lambda>j. instaslice_key j = instaslice_key i) (instaslices w')
          then (None, w'\<lparr>instaslices :=
                  map (\<lambda>j. if instaslice_key j = instaslice_key i then i else j) (instaslices w')\<rparr>)
          else (Some NotFound, w'))"

subsection \<open>Gates and finalizers\<close>

text \<open>
  \<^verbatim>\<open>checkIfPodGatedByInstaSlice\<close>. Go evaluates \<^verbatim>\<open>&&\<close> left to right: the
  read of \<^verbatim>\<open>pod.Status.Conditions[0]\<close> happens only for a pending pod, and panics
  when the list is empty.
\<close>

fun checkIfPodGatedByInstaSlice_loop :: "params \<Rightarrow> Pod \<Rightarrow> string list \<Rightarrow> panic + bool" where
  "checkIfPodGatedByInstaSlice_loop P pod [] = Inr False"
| "checkIfPodGatedByInstaSlice_loop P pod (gate # gates) =
     (if gate = gateName P then
        (if Phase pod = PodPending then
           (case Conditions pod of
              [] \<Rightarrow> Inl IndexOutOfRange
            | c # _ \<Rightarrow>
                if Contains (Message c) ''blocked'' then Inr True
                else checkIfPodGatedByInstaSlice_loop P pod gates)
         else checkIfPodGatedByInstaSlice_loop P pod gates)
      else checkIfPodGatedByInstaSlice_loop P pod gates)"

definition checkIfPodGatedByInstaSlice :: "params \<Rightarrow> Pod \<Rightarrow> panic + bool" where
  "checkIfPodGatedByInstaSlice P pod = checkIfPodGatedByInstaSlice_loop P pod (SchedulingGates pod)"

fun isPodGatedByOthers_loop :: "params \<Rightarrow> string list \<Rightarrow> bool" where
  "isPodGatedByOthers_loop P [] = False"
| "isPodGatedByOthers_loop P (gate # gates) =
     (if gate \<noteq> gateName P then True else isPodGatedByOthers_loop P gates)"

definition isPodGatedByOthers :: "params \<Rightarrow> Pod \<Rightarrow> bool" where
  "isPodGatedByOthers P pod = isPodGatedByOthers_loop P (SchedulingGates pod)"

text \<open>\<^verbatim>\<open>controllerutil.ContainsFinalizer\<close> and \<^verbatim>\<open>controllerutil.RemoveFinalizer\<close>
  (the latter returns whether the list changed).\<close>

definition ContainsFinalizer :: "Pod \<Rightarrow> string \<Rightarrow> bool" where
  "ContainsFinalizer pod f = (f \<in> set (Finalizers pod))"

definition RemoveFinalizer :: "Pod \<Rightarrow> string \<Rightarrow> Pod \<times> bool" where
  "RemoveFinalizer pod f =
     (let kept = filter (\<lambda>x. x \<noteq> f) (Finalizers pod)
      in (pod\<lparr>Finalizers := kept\<rparr>, length (Finalizers pod) \<noteq> length kept))"

text \<open>
  \<^verbatim>\<open>unGatePod\<close>. The \<^verbatim>\<open>range\<close> loop runs over the slice as it was on entry
  (\<open>n\<close> elements of the backing array \<open>arr\<close>), while the body shortens the slice stored
  in the pod (its current length is \<open>len\<close>) by moving the tail of the same array one
  place to the left. \<^verbatim>\<open>s[i+1:]\<close> panics when \<open>i + 1\<close> exceeds the current length.
\<close>

function unGatePod_loop :: "params \<Rightarrow> nat \<Rightarrow> nat \<Rightarrow> string list \<Rightarrow> nat \<Rightarrow> panic + string list" where
  "unGatePod_loop P n i arr len =
     (if i < n then
        (if arr ! i = gateName P then
           (if i + 1 > len then Inl SliceBoundsOutOfRange
            else unGatePod_loop P n (i + 1)
                   (take i arr @ take (len - (i + 1)) (drop (i + 1) arr) @ drop (len - 1) arr)
                   (len - 1))
         else unGatePod_loop P n (i + 1) arr len)
      else Inr (take len arr))"
  by pat_completeness auto
termination
  by (relation "measure (\<lambda>(P, n, i, arr, len). n - i)") auto

definition unGatePod :: "params \<Rightarrow> Pod \<Rightarrow> panic + Pod" where
  "unGatePod P podUpdate =
     (case unGatePod_loop P (length (SchedulingGates podUpdate)) 0 (SchedulingGates podUpdate)
             (length (SchedulingGates podUpdate)) of
        Inl p \<Rightarrow> Inl p
      | Inr gates \<Rightarrow> Inr (podUpdate\<lparr>SchedulingGates := gates\<rparr>))"

subsection \<open>Operations on the inventory\<close>

text \<open>Assignment to a map entry panics on the nil map; \<^verbatim>\<open>delete\<close> does not.\<close>

definition map_assign :: "string \<Rightarrow> 'v \<Rightarrow> 'v gomap \<Rightarrow> panic + 'v gomap" where
  "map_assign k v m =
     (case m of None \<Rightarrow> Inl NilMapAssignment | Some kvs \<Rightarrow> Inr (Some (AList.update k v kvs)))"

definition map_delete :: "string \<Rightarrow> 'v gomap \<Rightarrow> 'v gomap" where
  "map_delete k m = (case m of None \<Rightarrow> None | Some kvs \<Rightarrow> Some (AList.delete k kvs))"

definition deleteInstasliceAllocation ::
  "string \<Rightarrow> AllocationDetails \<Rightarrow> world \<Rightarrow> outcome \<times> world" where
  "deleteInstasliceAllocation instasliceName allocation w =
     (case Get_Instaslice (''default'', instasliceName) w of
        (Inl err, w1) \<Rightarrow> (Returned \<lparr>Requeue = False, RequeueAfter = 2 * Second\<rparr> (Some err), w1)
      | (Inr updateInstasliceObject, w1) \<Rightarrow>
          (case Update_Instaslice
                  (updateInstasliceObject\<lparr>Allocations :=
                     map_delete (PodUUID allocation) (Allocations updateInstasliceObject)\<rparr>) w1 of
             (Some errUpdatingAllocation, w2) \<Rightarrow>
               (Returned \<lparr>Requeue = True, RequeueAfter = 0\<rparr> (Some errUpdatingAllocation), w2)
           | (None, w2) \<Rightarrow> (Returned Result_zero None, w2)))"

definition removeInstaSliceFinalizer ::
  "params \<Rightarrow> string \<times> string \<Rightarrow> world \<Rightarrow> outcome \<times> world" where
  "removeInstaSliceFinalizer P req w =
     (case Get_Pod req w of
        (Inl errGettingPod, w1) \<Rightarrow>
          (Returned \<lparr>Requeue = True, RequeueAfter = 0\<rparr> (Some errGettingPod), w1)
      | (Inr latestPod, w1) \<Rightarrow>
          (case Update_Pod (fst (RemoveFinalizer latestPod (finalizerName P))) w1 of
             (Some err, w2) \<Rightarrow> (Returned \<lparr>Requeue = True, RequeueAfter = 0\<rparr> (Some err), w2)
           | (None, w2) \<Rightarrow> (Returned Result_zero None, w2)))"

definition removeInstasliceAllocation ::
  "string \<Rightarrow> AllocationDetails \<Rightarrow> world \<Rightarrow> outcome \<times> world" where
  "removeInstasliceAllocation instasliceName allocation w =
     (if Allocationstatus allocation = AllocationStatusDeleted then
        (case deleteInstasliceAllocation instasliceName allocation w of
           (Returned deleteResult (Some errDeletingAllocation), w1) \<Rightarrow>
             (Returned deleteResult (Some errDeletingAllocation), w1)
         | (Returned deleteResult None, w1) \<Rightarrow> (Returned Result_zero None, w1)
         | (Panicked p, w1) \<Rightarrow> (Panicked p, w1))
      else (Returned Result_zero None, w))"

definition setInstasliceAllocationToDeleting ::
  "params \<Rightarrow> string \<Rightarrow> string \<Rightarrow> AllocationDetails \<Rightarrow> world \<Rightarrow> outcome \<times> world" where
  "setInstasliceAllocationToDeleting P instasliceName podUUID allocation w =
     (case Get_Instaslice (instaSliceOperatorNamespace P, instasliceName) w of
        (Inl errRetrievingInstaSlice, w1) \<Rightarrow>
          (Returned \<lparr>Requeue = True, RequeueAfter = 0\<rparr> (Some errRetrievingInstaSlice), w1)
      | (Inr updateInstasliceObject, w1) \<Rightarrow>
          (case map_assign podUUID (allocation\<lparr>Allocationstatus := AllocationStatusDeleting\<rparr>)
                  (Allocations updateInstasliceObject) of
             Inl p \<Rightarrow> (Panicked p, w1)
           | Inr allocs \<Rightarrow>
               (case Update_Instaslice (updateInstasliceObject\<lparr>Allocations := allocs\<rparr>) w1 of
                  (Some errUpdatingInstaslice, w2) \<Rightarrow>
                    (Returned \<lparr>Requeue = True, RequeueAfter = 0\<rparr> (Some errUpdatingInstaslice), w2)
                | (None, w2) \<Rightarrow> (Returned Result_zero None, w2))))"

subsection \<open>The node-health oracle\<close>

fun isPatternPodRunningAndHealthy_loop :: "string \<Rightarrow> Pod list \<Rightarrow> bool" where
  "isPatternPodRunningAndHealthy_loop pattern [] = False"
| "isPatternPodRunningAndHealthy_loop pattern (pod # items) =
     (if HasPrefix (Name pod) pattern then
        (if Phase pod \<noteq> PodRunning then False
         else if list_ex (\<lambda>condition. Type condition = ''Ready'' \<and> Status condition \<noteq> ''True'')
                   (Conditions pod) then False
         else True)
      else isPatternPodRunningAndHealthy_loop pattern items)"

definition isPatternPodRunningAndHealthy ::
  "string \<Rightarrow> string \<Rightarrow> world \<Rightarrow> (error + bool) \<times> world" where
  "isPatternPodRunningAndHealthy pattern namespace w =
     (case List_Pods namespace w of
        (Inl err, w1) \<Rightarrow> (Inl err, w1)
      | (Inr podList, w1) \<Rightarrow> (Inr (isPatternPodRunningAndHealthy_loop pattern podList), w1))"

subsection \<open>The profile name of a resource request\<close>

text \<open>
  \<^verbatim>\<open>extractProfileName\<close> searches each key of the limits that contains
  \<^verbatim>\<open>mig-\<close> for the leftmost match of \<^verbatim>\<open>(\d+g\.\d+gb)\<close>. A greedy run of
  digits can only be followed by a non-digit, so a match anchored at a position exists
  exactly when the maximal runs of digits match.
\<close>

definition isDigit :: "char \<Rightarrow> bool" where
  "isDigit c = (c \<in> set ''0123456789'')"

definition match_here :: "string \<Rightarrow> string option" where
  "match_here s =
     (let d1 = takeWhile isDigit s in
      if d1 = [] then None
      else (case dropWhile isDigit s of
              g # dot # r2 \<Rightarrow>
                if g = CHR ''g'' \<and> dot = CHR ''.'' then
                  (let d2 = takeWhile isDigit r2 in
                   if d2 = [] then None
                   else (case dropWhile isDigit r2 of
                           g2 # b # _ \<Rightarrow>
                             if g2 = CHR ''g'' \<and> b = CHR ''b''
                             then Some (d1 @ ''g.'' @ d2 @ ''gb'') else None
                         | _ \<Rightarrow> None))
                else None
            | _ \<Rightarrow> None))"

fun FindStringSubmatch :: "string \<Rightarrow> string option" where
  "FindStringSubmatch [] = None"
| "FindStringSubmatch (c # cs) =
     (case match_here (c # cs) of Some m \<Rightarrow> Some m | None \<Rightarrow> FindStringSubmatch cs)"

fun extractProfileName_loop :: "(string \<times> string) list \<Rightarrow> string \<Rightarrow> string" where
  "extractProfileName_loop [] profileName = profileName"
| "extractProfileName_loop ((k, q) # limits) profileName =
     (if Contains k ''mig-'' then
        (case FindStringSubmatch k of
           Some m \<Rightarrow> extractProfileName_loop limits m
         | None \<Rightarrow> extractProfileName_loop limits profileName)
      else extractProfileName_loop limits profileName)"

definition extractProfileName :: "(string \<times> string) list \<Rightarrow> string" where
  "extractProfileName limits = extractProfileName_loop limits []"

subsection \<open>Placement policies\<close>

text \<open>
  The two reserved policies. A Go method either returns or panics; these two return
  the address of a zero-valued \<^verbatim>\<open>AllocationDetails\<close> whatever they are given.
\<close>

definition LeftToRightPolicy_SetAllocationDetails ::
  "string \<Rightarrow> 32 word \<Rightarrow> 32 word \<Rightarrow> string \<Rightarrow> string \<Rightarrow> string \<Rightarrow> int \<Rightarrow> int \<Rightarrow> int \<Rightarrow>
   string \<Rightarrow> string \<Rightarrow> string \<Rightarrow> panic + AllocationDetails" where
  "LeftToRightPolicy_SetAllocationDetails profileName newStart size' podUUID nodename processed
     discoveredGiprofile Ciprofileid Ciengprofileid namespace podName gpuUuid =
     Inr AllocationDetails_zero"

definition RightToLeftPolicy_SetAllocationDetails ::
  "string \<Rightarrow> 32 word \<Rightarrow> 32 word \<Rightarrow> string \<Rightarrow> string \<Rightarrow> string \<Rightarrow> int \<Rightarrow> int \<Rightarrow> int \<Rightarrow>
   string \<Rightarrow> string \<Rightarrow> string \<Rightarrow> panic + AllocationDetails" where
  "RightToLeftPolicy_SetAllocationDetails profileName newStart size' podUUID nodename processed
     discoveredGiprofile Ciprofileid Ciengprofileid namespace podName gpuUuid =
     Inr AllocationDetails_zero"

subsection \<open>The reconcile pass, branch by branch\<close>

text \<open>
  The pod was not found. \<^verbatim>\<open>r.Get\<close> leaves its target untouched when it fails, so the
  local \<^verbatim>\<open>pod\<close> is still the zero value it was initialised with, and the name the
  allocations are compared with is \<^verbatim>\<open>pod.Name\<close> of that value.
\<close>

fun notfound_body :: "Instaslice \<Rightarrow> string \<times> AllocationDetails \<Rightarrow> world \<Rightarrow> (outcome \<times> world) + world" where
  "notfound_body instaslice (k, allocation) w =
     (if PodName allocation = Name Pod_zero then
        (case deleteInstasliceAllocation (InstasliceName instaslice) allocation w of
           (Returned result (Some err), w1) \<Rightarrow> Inl (Returned result (Some err), w1)
         | (Returned result None, w1) \<Rightarrow> Inr w1
         | (Panicked p, w1) \<Rightarrow> Inl (Panicked p, w1))
      else Inr w)"

definition reconcile_notfound :: "Instaslice list \<Rightarrow> world \<Rightarrow> outcome \<times> world" where
  "reconcile_notfound items w =
     (case for_range (\<lambda>instaslice. for_range (notfound_body instaslice)
                        (map_items (Allocations instaslice))) items w of
        Inl r \<Rightarrow> r
      | Inr w1 \<Rightarrow> (Returned Result_zero None, w1))"

text \<open>
  After a loop of a terminal phase found no allocation: remove the finalizer. Go
  evaluates \<^verbatim>\<open>allocationNotFound && RemoveFinalizer(...)\<close> left to right.
\<close>

definition remove_finalizer_if_unbound :: "params \<Rightarrow> Pod \<Rightarrow> bool \<Rightarrow> world \<Rightarrow> outcome \<times> world" where
  "remove_finalizer_if_unbound P pod allocationNotFound w =
     (if allocationNotFound \<and> snd (RemoveFinalizer pod (finalizerName P)) then
        (case Update_Pod (fst (RemoveFinalizer pod (finalizerName P))) w of
           (Some err, w1) \<Rightarrow> (Returned \<lparr>Requeue = True, RequeueAfter = 0\<rparr> None, w1)
         | (None, w1) \<Rightarrow> (Returned Result_zero None, w1))
      else (Returned Result_zero None, w))"

text \<open>The pod has failed and carries the finalizer.\<close>

fun failed_body ::
  "params \<Rightarrow> Pod \<Rightarrow> Instaslice \<Rightarrow> string \<times> AllocationDetails \<Rightarrow> bool \<times> world \<Rightarrow>
   (outcome \<times> world) + (bool \<times> world)" where
  "failed_body P pod instaslice (k, allocation) (allocationNotFound, w) =
     (if UID pod = PodUUID allocation then
        (if Allocationstatus allocation = AllocationStatusCreating then
           Inl (Returned \<lparr>Requeue = False, RequeueAfter = 2 * Second\<rparr> None, w)
         else if Allocationstatus allocation = AllocationStatusCreated
                 \<or> Allocationstatus allocation = AllocationStatusUngated then
           (case setInstasliceAllocationToDeleting P (InstasliceName instaslice) (UID pod) allocation w of
              (Returned resultDeleting (Some errInDeleting), w1) \<Rightarrow> Inl (Returned resultDeleting None, w1)
            | (Returned resultDeleting None, w1) \<Rightarrow> Inl (Returned Result_zero None, w1)
            | (Panicked p, w1) \<Rightarrow> Inl (Panicked p, w1))
         else if Allocationstatus allocation = AllocationStatusDeleted then
           (case removeInstasliceAllocation (InstasliceName instaslice) allocation w of
              (Returned resultRemove (Some errInRemove), w1) \<Rightarrow> Inl (Returned resultRemove None, w1)
            | (Returned resultRemove None, w1) \<Rightarrow>
                Inl (Returned \<lparr>Requeue = False, RequeueAfter = 2 * Second\<rparr> None, w1)
            | (Panicked p, w1) \<Rightarrow> Inl (Panicked p, w1))
         else Inr (False, w))
      else Inr (allocationNotFound, w))"

definition reconcile_failed :: "params \<Rightarrow> Instaslice list \<Rightarrow> Pod \<Rightarrow> world \<Rightarrow> outcome \<times> world" where
  "reconcile_failed P items pod w =
     (case for_range (\<lambda>instaslice. for_range (failed_body P pod instaslice)
                        (map_items (Allocations instaslice))) items (True, w) of
        Inl r \<Rightarrow> r
      | Inr (allocationNotFound, w1) \<Rightarrow> remove_finalizer_if_unbound P pod allocationNotFound w1)"

text \<open>The pod has succeeded and carries the finalizer.\<close>

fun succeeded_body ::
  "params \<Rightarrow> Pod \<Rightarrow> Instaslice \<Rightarrow> string \<times> AllocationDetails \<Rightarrow> bool \<times> world \<Rightarrow>
   (outcome \<times> world) + (bool \<times> world)" where
  "succeeded_body P pod instaslice (k, allocation) (allocationNotFound, w) =
     (if PodUUID allocation = UID pod then
        (if Allocationstatus allocation \<noteq> AllocationStatusDeleted then
           (case setInstasliceAllocationToDeleting P (InstasliceName instaslice) (UID pod) allocation w of
              (Returned result (Some err), w1) \<Rightarrow> Inl (Returned result (Some err), w1)
            | (Returned result None, w1) \<Rightarrow> Inl (Returned Result_zero None, w1)
            | (Panicked p, w1) \<Rightarrow> Inl (Panicked p, w1))
         else
           (case removeInstasliceAllocation (InstasliceName instaslice) allocation w of
              (Returned result (Some err), w1) \<Rightarrow> Inl (Returned result None, w1)
            | (Returned result None, w1) \<Rightarrow>
                Inl (Returned \<lparr>Requeue = False, RequeueAfter = 2 * Second\<rparr> None, w1)
            | (Panicked p, w1) \<Rightarrow> Inl (Panicked p, w1)))
      else Inr (allocationNotFound, w))"

definition reconcile_succeeded :: "params \<Rightarrow> Instaslice list \<Rightarrow> Pod \<Rightarrow> world \<Rightarrow> outcome \<times> world" where
  "reconcile_succeeded P items pod w =
     (case for_range (\<lambda>instaslice. for_range (succeeded_body P pod instaslice)
                        (map_items (Allocations instaslice))) items (True, w) of
        Inl r \<Rightarrow> r
      | Inr (allocationNotFound, w1) \<Rightarrow> remove_finalizer_if_unbound P pod allocationNotFound w1)"

text \<open>
  Marking an entry as deleting in place (the two deletion branches do it inline): read
  the object from the operator's namespace, assign the entry, write the object back.
  \<open>onGet\<close> and \<open>onUpdate\<close> are the results returned when the read or the write fails.
\<close>

definition mark_deleting ::
  "params \<Rightarrow> Result \<Rightarrow> Result \<Rightarrow> Instaslice \<Rightarrow> string \<Rightarrow> AllocationDetails \<Rightarrow> world \<Rightarrow>
   (outcome \<times> world) + world" where
  "mark_deleting P onGet onUpdate instaslice podUuid allocation w =
     (case Get_Instaslice (instaSliceOperatorNamespace P, InstasliceName instaslice) w of
        (Inl err, w1) \<Rightarrow> Inl (Returned onGet None, w1)
      | (Inr updateInstasliceObject, w1) \<Rightarrow>
          (case map_assign podUuid (allocation\<lparr>Allocationstatus := AllocationStatusDeleting\<rparr>)
                  (Allocations updateInstasliceObject) of
             Inl p \<Rightarrow> Inl (Panicked p, w1)
           | Inr allocs \<Rightarrow>
               (case Update_Instaslice (updateInstasliceObject\<lparr>Allocations := allocs\<rparr>) w1 of
                  (Some errUpdatingInstaslice, w2) \<Rightarrow> Inl (Returned onUpdate None, w2)
                | (None, w2) \<Rightarrow> Inr w2)))"

text \<open>
  The pod is being deleted and was never ungated. The second test of the body reads the
  loop variable \<^verbatim>\<open>allocation\<close>, whose status the first test has set to deleting when
  it applied; the two tests exclude each other.
\<close>

fun deleted_gated_body ::
  "params \<Rightarrow> Instaslice \<Rightarrow> string \<times> AllocationDetails \<Rightarrow> Pod \<times> world \<Rightarrow>
   (outcome \<times> world) + (Pod \<times> world)" where
  "deleted_gated_body P instaslice (podUuid, allocation) (pod, w) =
     (if podUuid = UID pod \<and> Allocationstatus allocation = AllocationStatusCreated then
        (case mark_deleting P \<lparr>Requeue = False, RequeueAfter = 1 * Second\<rparr>
                 \<lparr>Requeue = False, RequeueAfter = 1 * Second\<rparr> instaslice podUuid allocation w of
           Inl r \<Rightarrow> Inl r
         | Inr w1 \<Rightarrow> Inr (pod, w1))
      else if podUuid = UID pod \<and> Allocationstatus allocation = AllocationStatusDeleted then
        (case removeInstasliceAllocation (InstasliceName instaslice) allocation w of
           (Returned result (Some err), w1) \<Rightarrow> Inl (Returned result None, w1)
         | (Panicked p, w1) \<Rightarrow> Inl (Panicked p, w1)
         | (Returned result None, w1) \<Rightarrow>
             (if snd (RemoveFinalizer pod (finalizerName P)) then
                (case Update_Pod (fst (RemoveFinalizer pod (finalizerName P))) w1 of
                   (Some err, w2) \<Rightarrow> Inl (Returned \<lparr>Requeue = True, RequeueAfter = 0\<rparr> None, w2)
                 | (None, w2) \<Rightarrow> Inr (fst (RemoveFinalizer pod (finalizerName P)), w2))
              else Inr (fst (RemoveFinalizer pod (finalizerName P)), w1)))
      else Inr (pod, w))"

definition reconcile_deleted_gated :: "params \<Rightarrow> Instaslice list \<Rightarrow> Pod \<Rightarrow> world \<Rightarrow> outcome \<times> world" where
  "reconcile_deleted_gated P items pod w =
     (case for_range (\<lambda>instaslice. for_range (deleted_gated_body P instaslice)
                        (map_items (Allocations instaslice))) items (pod, w) of
        Inl r \<Rightarrow> r
      | Inr (pod1, w1) \<Rightarrow> (Returned Result_zero None, w1))"

text \<open>
  The pod is being deleted after it was ungated: a grace period of thirty seconds.
  \<^verbatim>\<open>time.Since\<close> saturates at the bounds of a 64-bit duration, and the subtraction
  of durations wraps.
\<close>

definition Since :: "int \<Rightarrow> int \<Rightarrow> int" where
  "Since t_now t = max (- (2 ^ 63)) (min (2 ^ 63 - 1) (t_now - t))"

definition wrap64 :: "int \<Rightarrow> int" where
  "wrap64 x = (x + 2 ^ 63) mod 2 ^ 64 - 2 ^ 63"

text \<open>
  When the entry is already deleted it is erased and the finalizer removed; the result
  of removing the finalizer is not looked at (the test after it reads the error of the
  deletion again), and the grace period is evaluated all the same.
\<close>

fun deleted_body ::
  "params \<Rightarrow> env \<Rightarrow> string \<times> string \<Rightarrow> Pod \<Rightarrow> int \<Rightarrow> Instaslice \<Rightarrow> string \<times> AllocationDetails \<Rightarrow>
   world \<Rightarrow> (outcome \<times> world) + world" where
  "deleted_body P E req pod deletionTime instaslice (podUuid, allocation) w =
     (if podUuid = UID pod then
        (case (if Allocationstatus allocation = AllocationStatusDeleted then
                 (case deleteInstasliceAllocation (InstasliceName instaslice) allocation w of
                    (Returned resultDelete (Some errDeletingAllocation), w1) \<Rightarrow>
                      Inl (Returned resultDelete (Some errDeletingAllocation), w1)
                  | (Panicked p, w1) \<Rightarrow> Inl (Panicked p, w1)
                  | (Returned resultDelete None, w1) \<Rightarrow>
                      Inr (snd (removeInstaSliceFinalizer P req w1)))
               else Inr w) of
           Inl r \<Rightarrow> Inl r
         | Inr w2 \<Rightarrow>
             (if Since (now E) deletionTime > 30 * Second then
                mark_deleting P \<lparr>Requeue = True, RequeueAfter = 0\<rparr>
                  \<lparr>Requeue = False, RequeueAfter = 1 * Second\<rparr> instaslice podUuid allocation w2
              else Inl (Returned \<lparr>Requeue = False,
                           RequeueAfter = wrap64 (30 * Second - Since (now E) deletionTime)\<rparr> None, w2)))
      else Inr w)"

definition reconcile_deleted ::
  "params \<Rightarrow> env \<Rightarrow> string \<times> string \<Rightarrow> Instaslice list \<Rightarrow> Pod \<Rightarrow> int \<Rightarrow> world \<Rightarrow> outcome \<times> world" where
  "reconcile_deleted P E req items pod deletionTime w =
     (if ContainsFinalizer pod (finalizerName P) then
        (case for_range (\<lambda>instaslice. for_range (deleted_body P E req pod deletionTime instaslice)
                           (map_items (Allocations instaslice))) items w of
           Inl r \<Rightarrow> r
         | Inr w1 \<Rightarrow> (Returned Result_zero None, w1))
      else (Returned Result_zero None, w))"

text \<open>
  The ungating step, written twice in the source (for an entry found created and for
  an entry found ungated): set the node selector, drop the gate, update the pod.
\<close>

definition ungate_step ::
  "params \<Rightarrow> AllocationDetails \<Rightarrow> Pod \<Rightarrow> world \<Rightarrow> (outcome \<times> world) + (Pod \<times> world)" where
  "ungate_step P allocations pod w =
     (case unGatePod P (pod\<lparr>NodeSelector :=
               Some (AList.update (NodeLabel P) (Nodename allocations) (map_items (NodeSelector pod)))\<rparr>) of
        Inl p \<Rightarrow> Inl (Panicked p, w)
      | Inr pod1 \<Rightarrow>
          (case Update_Pod pod1 w of
             (Some errForUngating, w1) \<Rightarrow> Inl (Returned \<lparr>Requeue = True, RequeueAfter = 0\<rparr> None, w1)
           | (None, w1) \<Rightarrow> Inr (pod1, w1)))"

text \<open>
  An entry found created: ask the oracle, write the status ungated to the inventory,
  and then ungate the pod if the oracle answered that the device plugin is healthy.
  The result carries the loop variable \<^verbatim>\<open>allocations\<close> as the step leaves it.
\<close>

definition created_step ::
  "params \<Rightarrow> Instaslice \<Rightarrow> string \<Rightarrow> AllocationDetails \<Rightarrow> Pod \<Rightarrow> world \<Rightarrow>
   (outcome \<times> world) + (bool \<times> AllocationDetails \<times> Pod \<times> world)" where
  "created_step P instaslice podUuid allocations pod w =
     (case isPatternPodRunningAndHealthy ''nvidia-device-plugin-daemonset'' ''gpu-operator'' w of
        (Inl err, w1) \<Rightarrow> Inl (Returned \<lparr>Requeue = False, RequeueAfter = 2 * Second\<rparr> None, w1)
      | (Inr gpuOperatorPodOk, w1) \<Rightarrow>
          (case Get_Instaslice (''default'', InstasliceName instaslice) w1 of
             (Inl errRetrievingInstaSlice, w2) \<Rightarrow>
               Inl (Returned \<lparr>Requeue = True, RequeueAfter = 0\<rparr> None, w2)
           | (Inr updateInstasliceObject, w2) \<Rightarrow>
               (case Update_Instaslice
                       (updateInstasliceObject\<lparr>Allocations :=
                          Some (AList.update podUuid
                                  (allocations\<lparr>Allocationstatus := AllocationStatusUngated\<rparr>)
                                  (map_items (Allocations updateInstasliceObject)))\<rparr>) w2 of
                  (Some err, w3) \<Rightarrow> Inl (Returned \<lparr>Requeue = True, RequeueAfter = 0\<rparr> None, w3)
                | (None, w3) \<Rightarrow>
                    (if gpuOperatorPodOk then
                       (case ungate_step P (allocations\<lparr>Allocationstatus := AllocationStatusUngated\<rparr>)
                               pod w3 of
                          Inl r \<Rightarrow> Inl r
                        | Inr (pod1, w4) \<Rightarrow>
                            Inr (gpuOperatorPodOk,
                                 allocations\<lparr>Allocationstatus := AllocationStatusUngated\<rparr>, pod1, w4))
                     else Inl (Returned \<lparr>Requeue = False, RequeueAfter = 2 * Second\<rparr> None, w3)))))"

text \<open>
  The loop state is the flag \<^verbatim>\<open>gpuOperatorPodOk\<close> (declared before the loop, false),
  the pod and the world. The assignment of line 341 to the listed snapshot replaces
  the value of the key being visited; no later read of the pass sees it.
\<close>

fun gated_body ::
  "params \<Rightarrow> Instaslice \<Rightarrow> string \<times> AllocationDetails \<Rightarrow> bool \<times> Pod \<times> world \<Rightarrow>
   (outcome \<times> world) + (bool \<times> Pod \<times> world)" where
  "gated_body P instaslice (podUuid, allocations) (gpuOperatorPodOk, pod, w) =
     (case (if Allocationstatus allocations = AllocationStatusCreated \<and> PodUUID allocations = UID pod
            then created_step P instaslice podUuid allocations pod w
            else Inr (gpuOperatorPodOk, allocations, pod, w)) of
        Inl r \<Rightarrow> Inl r
      | Inr (gpuOperatorPodOk1, allocations1, pod1, w1) \<Rightarrow>
          (if Allocationstatus allocations1 = AllocationStatusUngated \<and> PodUUID allocations1 = UID pod1
           then (if gpuOperatorPodOk1 then
                   (case ungate_step P allocations1 pod1 w1 of
                      Inl r \<Rightarrow> Inl r
                    | Inr (pod2, w2) \<Rightarrow> Inr (gpuOperatorPodOk1, pod2, w2))
                 else Inl (Returned \<lparr>Requeue = False, RequeueAfter = 2 * Second\<rparr> None, w1))
           else Inr (gpuOperatorPodOk1, pod1, w1)))"

text \<open>No entry is bound to the pod yet: ask the placement search, node by node.\<close>

definition prepared_clash :: "Instaslice \<Rightarrow> AllocationDetails \<Rightarrow> bool" where
  "prepared_clash instaslice allocDetails =
     list_ex (\<lambda>(k, item). Parent item = GPUUUID allocDetails \<and> PreparedSize item = Size allocDetails
                \<and> PreparedStart item = Start allocDetails)
       (map_items (Prepared instaslice))"

definition allocate_body ::
  "params \<Rightarrow> string \<Rightarrow> Pod \<Rightarrow> Instaslice \<Rightarrow> world \<Rightarrow> (outcome \<times> world) + world" where
  "allocate_body P profileName pod instaslice w =
     (case findNodeAndDeviceForASlice P instaslice profileName pod of
        Inl err \<Rightarrow> Inr w
      | Inr allocDetails \<Rightarrow>
          (if prepared_clash instaslice allocDetails then
             Inl (Returned \<lparr>Requeue = False, RequeueAfter = 1 * Second\<rparr> None, w)
           else
             (case Get_Instaslice (''default'', InstasliceName instaslice) w of
                (Inl err, w1) \<Rightarrow> Inl (Returned \<lparr>Requeue = True, RequeueAfter = 0\<rparr> None, w1)
              | (Inr updateInstasliceObject, w1) \<Rightarrow>
                  (case Update_Instaslice
                          (updateInstasliceObject\<lparr>Allocations :=
                             Some (AList.update (UID pod) allocDetails
                                     (map_items (Allocations updateInstasliceObject)))\<rparr>) w1 of
                     (Some err, w2) \<Rightarrow> Inl (Returned \<lparr>Requeue = True, RequeueAfter = 0\<rparr> None, w2)
                   | (None, w2) \<Rightarrow> Inl (Returned Result_zero None, w2)))))"

definition podHasNodeAllocation :: "Instaslice list \<Rightarrow> Pod \<Rightarrow> bool" where
  "podHasNodeAllocation items pod =
     list_ex (\<lambda>instaslice. list_ex (\<lambda>(k, allocations). PodUUID allocations = UID pod)
                             (map_items (Allocations instaslice))) items"

definition reconcile_gated :: "params \<Rightarrow> env \<Rightarrow> Instaslice list \<Rightarrow> Pod \<Rightarrow> world \<Rightarrow> outcome \<times> world" where
  "reconcile_gated P E items pod w =
     (case Containers pod of
        [container] \<Rightarrow>
          (case for_range (\<lambda>instaslice. for_range (gated_body P instaslice)
                             (map_items (Allocations instaslice))) items (False, pod, w) of
             Inl r \<Rightarrow> r
           | Inr (gpuOperatorPodOk, pod1, w1) \<Rightarrow>
               (if \<not> podHasNodeAllocation items pod then
                  (case for_range (allocate_body P (extractProfileName (Limits container)) pod1) items w1 of
                     Inl r \<Rightarrow> r
                   | Inr w2 \<Rightarrow>
                       (Returned \<lparr>Requeue = False,
                          RequeueAfter = (int (rand_draw E mod 10) + 1) * Second\<rparr> None, w2))
                else (Returned Result_zero None, w1)))
      | _ \<Rightarrow> (Returned Result_zero (Some (Errorf ''multiple containers per pod not supported'')), w))"

subsection \<open>The reconcile pass\<close>

text \<open>Adding the finalizer to a pod gated by InstaSlice (lines 112 to 120).\<close>

definition add_finalizer :: "params \<Rightarrow> bool \<Rightarrow> Pod \<Rightarrow> world \<Rightarrow> (outcome \<times> world) + (Pod \<times> world)" where
  "add_finalizer P isPodGated pod w =
     (if isPodGated \<and> \<not> ContainsFinalizer pod (finalizerName P) then
        (case Update_Pod (pod\<lparr>Finalizers := Finalizers pod @ [finalizerName P]\<rparr>) w of
           (Some errAddingFinalizer, w1) \<Rightarrow> Inl (Returned \<lparr>Requeue = True, RequeueAfter = 0\<rparr> None, w1)
         | (None, w1) \<Rightarrow> Inr (pod\<lparr>Finalizers := Finalizers pod @ [finalizerName P]\<rparr>, w1))
      else Inr (pod, w))"

text \<open>The branches on the phase and on the deletion timestamp (lines 122 to 438).\<close>

definition reconcile_pod ::
  "params \<Rightarrow> env \<Rightarrow> string \<times> string \<Rightarrow> Instaslice list \<Rightarrow> bool \<Rightarrow> Pod \<Rightarrow> world \<Rightarrow> outcome \<times> world" where
  "reconcile_pod P E req items isPodGated pod w =
     (if Phase pod = PodFailed \<and> ContainsFinalizer pod (finalizerName P) then
        reconcile_failed P items pod w
      else if Phase pod = PodSucceeded \<and> ContainsFinalizer pod (finalizerName P) then
        reconcile_succeeded P items pod w
      else (case DeletionTimestamp pod of
              Some deletionTime \<Rightarrow>
                (if isPodGated then reconcile_deleted_gated P items pod w
                 else reconcile_deleted P E req items pod deletionTime w)
            | None \<Rightarrow>
                (if isPodGated then reconcile_gated P E items pod w
                 else (Returned Result_zero None, w))))"

definition Reconcile :: "params \<Rightarrow> env \<Rightarrow> string \<times> string \<Rightarrow> world \<Rightarrow> outcome \<times> world" where
  "Reconcile P E req w =
     (case List_Instaslices w of
        (listed, w1) \<Rightarrow>
          (case Get_Pod req w1 of
             (Inl err, w2) \<Rightarrow>
               (if err = NotFound
                then reconcile_notfound (case listed of Inl e \<Rightarrow> [] | Inr items \<Rightarrow> items) w2
                else (Returned Result_zero None, w2))
           | (Inr pod, w2) \<Rightarrow>
               (if isPodGatedByOthers P pod then (Returned Result_zero None, w2)
                else (case checkIfPodGatedByInstaSlice P pod of
                        Inl p \<Rightarrow> (Panicked p, w2)
                      | Inr isPodGated \<Rightarrow>
                          (if \<not> isPodGated \<and> \<not> ContainsFinalizer pod (finalizerName P)
                           then (Returned Result_zero None, w2)
                           else (case add_finalizer P isPodGated pod w2 of
                                   Inl r \<Rightarrow> r
                                 | Inr (pod1, w3) \<Rightarrow>
                                     reconcile_pod P E req
                                       (case listed of Inl e \<Rightarrow> [] | Inr items \<Rightarrow> items)
                                       isPodGated pod1 w3))))))"

subsection \<open>Scenarios\<close>

text \<open>
  The inventory as one list of entries, in the order in which the nested iteration of the pass
  visits them: every key and value of every listed object.
\<close>

definition entries :: "Instaslice list \<Rightarrow> (Instaslice \<times> string \<times> AllocationDetails) list" where
  "entries items =
     concat (map (\<lambda>instaslice. map (Pair instaslice) (map_items (Allocations instaslice))) items)"

text \<open>
  A pod \<^verbatim>\<open>default/w1\<close> that asks for one slice of profile \<^verbatim>\<open>1g.5gb\<close>, gated and
  carrying the finalizer; the device plugin's pod; one node \<^verbatim>\<open>node-1\<close> whose
  inventory holds the entry bound to the pod.
\<close>

definition example_params :: params where
  "example_params = \<lparr>gateName = ''org.instaslice/accelarator'',
     finalizerName = ''org.instaslice/accelarator'', NodeLabel = ''kubernetes.io/hostname'',
     instaSliceOperatorNamespace = ''default'',
     findNodeAndDeviceForASlice = (\<lambda>instaslice profileName pod. Inl NotFound)\<rparr>"

definition example_env :: env where
  "example_env = \<lparr>now = 100 * Second, rand_draw = 3\<rparr>"

definition example_pod :: Pod where
  "example_pod = \<lparr>Namespace = ''default'', Name = ''w1'', UID = ''uid-1'',
     Finalizers = [''org.instaslice/accelarator''], DeletionTimestamp = None,
     SchedulingGates = [''org.instaslice/accelarator''], NodeSelector = None,
     Containers = [\<lparr>ContainerName = ''main'', Limits = [(''nvidia.com/mig-1g.5gb'', ''1'')]\<rparr>],
     Phase = PodPending,
     Conditions = [\<lparr>Type = ''PodScheduled'', Status = ''False'',
                    Message = ''Scheduling is blocked due to non-empty scheduling gates''\<rparr>]\<rparr>"

text \<open>The same pod once it runs: no gate, bound to its node.\<close>

definition running_pod :: Pod where
  "running_pod = example_pod\<lparr>SchedulingGates := [],
     NodeSelector := Some [(''kubernetes.io/hostname'', ''node-1'')], Phase := PodRunning\<rparr>"

definition device_plugin_pod :: "PodPhase \<Rightarrow> Pod" where
  "device_plugin_pod ph = \<lparr>Namespace = ''gpu-operator'',
     Name = ''nvidia-device-plugin-daemonset-x7k2p'', UID = ''uid-plugin'', Finalizers = [],
     DeletionTimestamp = None, SchedulingGates = [], NodeSelector = None, Containers = [],
     Phase = ph, Conditions = [\<lparr>Type = ''Ready'', Status = ''True'', Message = []\<rparr>]\<rparr>"

definition example_allocation :: "AllocationStatus \<Rightarrow> AllocationDetails" where
  "example_allocation st = \<lparr>Profile = ''1g.5gb'', Start = 0, Size = 1, PodUUID = ''uid-1'',
     Nodename = ''node-1'', Allocationstatus = st, AllocNamespace = ''default'', PodName = ''w1'',
     GPUUUID = ''GPU-1'', Resourceidentifier = ''res-1'', Cpu = 100, Memory = 64\<rparr>"

definition example_instaslice :: "AllocationStatus \<Rightarrow> Instaslice" where
  "example_instaslice st = \<lparr>InstasliceNamespace = ''default'', InstasliceName = ''node-1'',
     Allocations = Some [(''uid-1'', example_allocation st)], Prepared = None\<rparr>"

definition example_world :: "Pod list \<Rightarrow> AllocationStatus \<Rightarrow> world" where
  "example_world ps st = \<lparr>pods = ps, instaslices = [example_instaslice st], faults = []\<rparr>"

text \<open>
  Variations: the pod without its finalizer, the pod with two containers, the pod after
  it succeeded, and the running pod whose deletion was requested at second 90. The
  clock of \<open>example_env\<close> reads second 100, the clock of \<open>example_env_late\<close> second 121.
\<close>

definition unfinalized_pod :: Pod where
  "unfinalized_pod = example_pod\<lparr>Finalizers := []\<rparr>"

definition ungated_pod :: Pod where
  "ungated_pod = example_pod\<lparr>SchedulingGates := [],
     NodeSelector := Some [(''kubernetes.io/hostname'', ''node-1'')]\<rparr>"

definition two_container_pod :: Pod where
  "two_container_pod = example_pod\<lparr>Containers :=
     [\<lparr>ContainerName = ''main'', Limits = [(''nvidia.com/mig-1g.5gb'', ''1'')]\<rparr>,
      \<lparr>ContainerName = ''sidecar'', Limits = [(''nvidia.com/mig-1g.5gb'', ''1'')]\<rparr>]\<rparr>"

definition succeeded_pod :: Pod where
  "succeeded_pod = running_pod\<lparr>Phase := PodSucceeded\<rparr>"

definition deleting_pod :: Pod where
  "deleting_pod = running_pod\<lparr>DeletionTimestamp := Some (90 * Second)\<rparr>"

definition example_env_late :: env where
  "example_env_late = \<lparr>now = 121 * Second, rand_draw = 3\<rparr>"

text \<open>
  Further variations of the pod with two containers (being deleted, without the
  finalizer, held by a second gate), a pod with one container that asks for two slices,
  and the inventory object of a node that holds no entry yet.
\<close>

definition two_container_deleting_pod :: Pod where
  "two_container_deleting_pod = two_container_pod\<lparr>DeletionTimestamp := Some (90 * Second)\<rparr>"

definition two_container_unfinalized_pod :: Pod where
  "two_container_unfinalized_pod = two_container_pod\<lparr>Finalizers := []\<rparr>"

definition doubly_gated_pod :: Pod where
  "doubly_gated_pod = two_container_pod\<lparr>SchedulingGates :=
     [''org.instaslice/accelarator'', ''example.com/quota'']\<rparr>"

definition two_unit_pod :: Pod where
  "two_unit_pod = example_pod\<lparr>Containers :=
     [\<lparr>ContainerName = ''main'', Limits = [(''nvidia.com/mig-1g.5gb'', ''2'')]\<rparr>]\<rparr>"

definition empty_inventory :: Instaslice where
  "empty_inventory = \<lparr>InstasliceNamespace = ''default'', InstasliceName = ''node-1'',
     Allocations = None, Prepared = None\<rparr>"

text \<open>A placement search that always answers with the example entry in status creating.\<close>

definition example_search :: "Instaslice \<Rightarrow> string \<Rightarrow> Pod \<Rightarrow> error + AllocationDetails" where
  "example_search instaslice profileName pod = Inr (example_allocation AllocationStatusCreating)"

section \<open>Properties\<close>

subsection \<open>The gate test\<close>

lemma checkIfPodGatedByInstaSlice_loop_True:
  "checkIfPodGatedByInstaSlice_loop P pod gates = Inr True \<longleftrightarrow>
     gateName P \<in> set gates \<and> Phase pod = PodPending \<and> Conditions pod \<noteq> []
       \<and> Contains (Message (hd (Conditions pod))) ''blocked''"
  by (induction gates) (auto split: list.splits)

lemma checkIfPodGatedByInstaSlice_loop_panic:
  "checkIfPodGatedByInstaSlice_loop P pod gates = Inl e \<longleftrightarrow>
     e = IndexOutOfRange \<and> gateName P \<in> set gates \<and> Phase pod = PodPending \<and> Conditions pod = []"
  by (induction gates) (auto split: list.splits)

text \<open>
  Claim C10. \<^verbatim>\<open>checkIfPodGatedByInstaSlice\<close> returns true exactly for a pod that
  carries the gate of the system, is pending, and whose first status condition has a
  message containing \<^verbatim>\<open>blocked\<close>. For a pending pod that carries the gate and has no
  status condition the read of the first condition is out of range, and that is the
  only way the function fails to return.
\<close>

theorem checkIfPodGatedByInstaSlice_total_iff:
  "(checkIfPodGatedByInstaSlice P pod = Inr True \<longleftrightarrow>
      gateName P \<in> set (SchedulingGates pod) \<and> Phase pod = PodPending \<and> Conditions pod \<noteq> []
        \<and> Contains (Message (hd (Conditions pod))) ''blocked'')
   \<and> (checkIfPodGatedByInstaSlice P pod = Inl IndexOutOfRange \<longleftrightarrow>
      gateName P \<in> set (SchedulingGates pod) \<and> Phase pod = PodPending \<and> Conditions pod = [])
   \<and> ((\<exists>b. checkIfPodGatedByInstaSlice P pod = Inr b) \<longleftrightarrow>
      \<not> (gateName P \<in> set (SchedulingGates pod) \<and> Phase pod = PodPending \<and> Conditions pod = []))"
proof -
  have "(\<exists>b. checkIfPodGatedByInstaSlice P pod = Inr b)
          \<longleftrightarrow> \<not> (\<exists>e. checkIfPodGatedByInstaSlice P pod = Inl e)"
    by (cases "checkIfPodGatedByInstaSlice P pod") auto
  then show ?thesis
    unfolding checkIfPodGatedByInstaSlice_def
    by (simp add: checkIfPodGatedByInstaSlice_loop_True checkIfPodGatedByInstaSlice_loop_panic)
qed

theorem checkIfPodGatedByInstaSlice_total_iff_witness:
  "checkIfPodGatedByInstaSlice example_params example_pod = Inr True
   \<and> checkIfPodGatedByInstaSlice example_params (example_pod\<lparr>Conditions := []\<rparr>) = Inl IndexOutOfRange"
  using checkIfPodGatedByInstaSlice_total_iff [of example_params example_pod]
    checkIfPodGatedByInstaSlice_total_iff [of example_params "example_pod\<lparr>Conditions := []\<rparr>"]
  by (simp add: example_params_def example_pod_def HasPrefix_def)

subsection \<open>The steady state\<close>

text \<open>
  Claim C8. A pod in the ungated steady state (the gate of the system removed, the
  finalizer present, neither failed nor succeeded, no deletion requested): whatever the
  inventory holds and whichever client calls fail, a pass returns the empty result
  with no error and leaves every stored pod and every inventory record as it was.
\<close>

theorem steady_state_no_mutation:
  assumes "find (\<lambda>p. pod_key p = req) (pods w) = Some pod"
    and "gateName P \<notin> set (SchedulingGates pod)"
    and "ContainsFinalizer pod (finalizerName P)"
    and "Phase pod \<noteq> PodFailed" and "Phase pod \<noteq> PodSucceeded"
    and "DeletionTimestamp pod = None"
  shows "fst (Reconcile P E req w) = Returned Result_zero None
     \<and> pods (snd (Reconcile P E req w)) = pods w
     \<and> instaslices (snd (Reconcile P E req w)) = instaslices w"
proof -
  have g: "checkIfPodGatedByInstaSlice P pod = Inr False"
    using assms(2) checkIfPodGatedByInstaSlice_loop_True [of P pod "SchedulingGates pod"]
      checkIfPodGatedByInstaSlice_loop_panic [of P pod "SchedulingGates pod"]
    unfolding checkIfPodGatedByInstaSlice_def
    by (cases "checkIfPodGatedByInstaSlice_loop P pod (SchedulingGates pod)") auto
  show ?thesis
    using assms g
    by (auto simp: Reconcile_def List_Instaslices_def Get_Pod_def tick_def add_finalizer_def
        reconcile_pod_def split: list.splits bool.splits option.splits prod.splits sum.splits)
qed

theorem steady_state_no_mutation_witness:
  "find (\<lambda>p. pod_key p = (''default'', ''w1''))
      (pods (example_world [running_pod] AllocationStatusUngated)) = Some running_pod
   \<and> fst (Reconcile example_params example_env (''default'', ''w1'')
            (example_world [running_pod] AllocationStatusUngated)) = Returned Result_zero None
   \<and> snd (Reconcile example_params example_env (''default'', ''w1'')
            (example_world [running_pod] AllocationStatusUngated))
       = example_world [running_pod] AllocationStatusUngated"
proof -
  have f: "find (\<lambda>p. pod_key p = (''default'', ''w1''))
      (pods (example_world [running_pod] AllocationStatusUngated)) = Some running_pod"
    by (simp add: example_world_def running_pod_def example_pod_def pod_key_def)
  have "fst (Reconcile example_params example_env (''default'', ''w1'')
            (example_world [running_pod] AllocationStatusUngated)) = Returned Result_zero None
     \<and> pods (snd (Reconcile example_params example_env (''default'', ''w1'')
            (example_world [running_pod] AllocationStatusUngated)))
        = pods (example_world [running_pod] AllocationStatusUngated)
     \<and> instaslices (snd (Reconcile example_params example_env (''default'', ''w1'')
            (example_world [running_pod] AllocationStatusUngated)))
        = instaslices (example_world [running_pod] AllocationStatusUngated)"
    by (rule steady_state_no_mutation [OF f])
       (simp_all add: running_pod_def example_pod_def example_params_def ContainsFinalizer_def)
  moreover have "faults (snd (Reconcile example_params example_env (''default'', ''w1'')
            (example_world [running_pod] AllocationStatusUngated))) = []"
    by code_simp
  ultimately show ?thesis
    using f by (simp add: example_world_def)
qed

subsection \<open>The reserved placement policies\<close>

text \<open>
  Claim C9 says that the reserved policies left-to-right and right-to-left raise an
  error named unimplemented instead of returning an empty result. They do not: at
  the arguments below (and at all others) each returns the zero-valued allocation.
\<close>

theorem reserved_policies_counterexample:
  "\<not> isl (LeftToRightPolicy_SetAllocationDetails ''1g.5gb'' 0 1 ''uid-1'' ''node-1'' ''creating''
             0 0 0 ''default'' ''w1'' ''GPU-1'')
   \<and> \<not> isl (RightToLeftPolicy_SetAllocationDetails ''1g.5gb'' 0 1 ''uid-1'' ''node-1'' ''creating''
             0 0 0 ''default'' ''w1'' ''GPU-1'')
   \<and> LeftToRightPolicy_SetAllocationDetails ''1g.5gb'' 0 1 ''uid-1'' ''node-1'' ''creating''
             0 0 0 ''default'' ''w1'' ''GPU-1'' = Inr AllocationDetails_zero"
  by (simp add: LeftToRightPolicy_SetAllocationDetails_def RightToLeftPolicy_SetAllocationDetails_def)

text \<open>
  Claim C9, amended. For every input, the reserved policies left-to-right and
  right-to-left return the zero-valued allocation record and raise nothing.
\<close>

theorem reserved_policies_return_zero:
  "LeftToRightPolicy_SetAllocationDetails profileName newStart sz podUUID nodename processed
      discoveredGiprofile Ciprofileid Ciengprofileid namespace podName gpuUuid
     = Inr AllocationDetails_zero
   \<and> RightToLeftPolicy_SetAllocationDetails profileName newStart sz podUUID nodename processed
      discoveredGiprofile Ciprofileid Ciengprofileid namespace podName gpuUuid
     = Inr AllocationDetails_zero"
  by (simp add: LeftToRightPolicy_SetAllocationDetails_def RightToLeftPolicy_SetAllocationDetails_def)

theorem reserved_policies_return_zero_witness:
  "RightToLeftPolicy_SetAllocationDetails ''3g.20gb'' 4 4 ''uid-2'' ''node-2'' ''creating''
      9 0 0 ''default'' ''w2'' ''GPU-2'' = Inr AllocationDetails_zero"
  using reserved_policies_return_zero [of "''3g.20gb''" 4 4 "''uid-2''" "''node-2''" "''creating''"
      9 0 0 "''default''" "''w2''" "''GPU-2''"]
  by simp

subsection \<open>Client calls that go through\<close>

lemma tick_nofault: "faults w = [] \<Longrightarrow> tick w = (False, w)"
  by (simp add: tick_def)

lemma List_Instaslices_ok: "faults w = [] \<Longrightarrow> List_Instaslices w = (Inr (instaslices w), w)"
  by (simp add: List_Instaslices_def tick_nofault)

lemma Get_Pod_ok:
  "faults w = [] \<Longrightarrow> find (\<lambda>p. pod_key p = req) (pods w) = Some pod \<Longrightarrow>
   Get_Pod req w = (Inr pod, w)"
  by (simp add: Get_Pod_def tick_nofault)

lemma find_key: "find (\<lambda>p. pod_key p = req) ps = Some pod \<Longrightarrow> pod_key pod = req \<and> pod \<in> set ps"
  by (auto simp: find_Some_iff)

lemma Update_Pod_ok:
  "faults w = [] \<Longrightarrow> find (\<lambda>p. pod_key p = pod_key p') (pods w) = Some pod \<Longrightarrow>
   Update_Pod p' w = (None, w\<lparr>pods := map (\<lambda>q. if pod_key q = pod_key p' then p' else q) (pods w)\<rparr>)"
  by (auto simp: Update_Pod_def tick_nofault list_ex_iff dest!: find_key)

lemma find_replaced:
  "find (\<lambda>p. pod_key p = req) ps = Some pod \<Longrightarrow> pod_key p' = req \<Longrightarrow>
   find (\<lambda>p. pod_key p = req) (map (\<lambda>q. if pod_key q = req then p' else q) ps) = Some p'"
  by (induction ps) (auto split: if_splits)

lemma find_distinct_key:
  "distinct (map f xs) \<Longrightarrow> x \<in> set xs \<Longrightarrow> find (\<lambda>y. f y = f x) xs = Some x"
  by (induction xs) (auto simp: image_iff)

lemma Get_Instaslice_ok:
  "faults w = [] \<Longrightarrow> find (\<lambda>i. instaslice_key i = key) (instaslices w) = Some i \<Longrightarrow>
   Get_Instaslice key w = (Inr i, w)"
  by (simp add: Get_Instaslice_def tick_nofault)

lemma Update_Instaslice_ok:
  "faults w = [] \<Longrightarrow> i \<in> set (instaslices w) \<Longrightarrow> instaslice_key i' = instaslice_key i \<Longrightarrow>
   Update_Instaslice i' w = (None, w\<lparr>instaslices :=
      map (\<lambda>j. if instaslice_key j = instaslice_key i then i' else j) (instaslices w)\<rparr>)"
  by (auto simp: Update_Instaslice_def tick_nofault list_ex_iff)

lemma pod_key_Finalizers [simp]: "pod_key (pod\<lparr>Finalizers := fs\<rparr>) = pod_key pod"
  by (simp add: pod_key_def)

subsection \<open>Iteration\<close>

lemma for_range_append:
  "for_range body (xs @ ys) s =
     (case for_range body xs s of Inl r \<Rightarrow> Inl r | Inr s' \<Rightarrow> for_range body ys s')"
  by (induction xs arbitrary: s) (auto split: sum.splits)

lemma for_range_map: "for_range body (map f xs) s = for_range (\<lambda>x. body (f x)) xs s"
  by (induction xs arbitrary: s) (auto split: sum.splits)

text \<open>Iterating over the objects and, nested, over their entries is one loop over \<open>entries\<close>.\<close>

lemma for_range_entries:
  "for_range (\<lambda>instaslice. for_range (body instaslice) (map_items (Allocations instaslice))) items s
     = for_range (\<lambda>(instaslice, kv). body instaslice kv) (entries items) s"
proof (induction items arbitrary: s)
  case Nil
  then show ?case by (simp add: entries_def)
next
  case (Cons i items)
  have e: "entries (i # items) = map (Pair i) (map_items (Allocations i)) @ entries items"
    by (simp add: entries_def)
  show ?case
    using Cons.IH by (simp add: e for_range_append for_range_map split: sum.splits)
qed

lemma for_range_skip:
  "(\<And>y s. y \<in> set xs \<Longrightarrow> body y s = Inr s) \<Longrightarrow> for_range body xs s = Inr s"
  by (induction xs arbitrary: s) auto

text \<open>A body that passes over every element but one behaves as that one iteration.\<close>

lemma for_range_unique:
  assumes "filter Q xs = [x]" and "\<And>y s. \<not> Q y \<Longrightarrow> body y s = Inr s"
  shows "for_range body xs s = body x s"
  using assms(1)
proof (induction xs arbitrary: s)
  case Nil
  then show ?case by simp
next
  case (Cons y ys)
  show ?case
  proof (cases "Q y")
    case True
    with Cons.prems have yx: "y = x" and e: "filter Q ys = []" by simp_all
    have "for_range body ys s' = Inr s'" for s'
      using e assms(2) by (intro for_range_skip) (auto simp: filter_empty_conv)
    then show ?thesis by (simp add: yx split: sum.splits)
  next
    case False
    with Cons.prems have "filter Q ys = [x]" by simp
    then show ?thesis using Cons.IH False assms(2) by simp
  qed
qed

text \<open>A body that returns at the first element it does not pass over.\<close>

lemma for_range_first:
  assumes "find Q xs = Some x" and "\<And>y s. \<not> Q y \<Longrightarrow> body y s = Inr s" and "body x s = Inl r"
  shows "for_range body xs s = Inl r"
  using assms(1)
proof (induction xs)
  case Nil
  then show ?case by simp
next
  case (Cons y ys)
  then show ?case using assms(2,3) by (cases "Q y") auto
qed

lemma entries_member:
  "(i, k, a) \<in> set (entries items) \<longleftrightarrow> i \<in> set items \<and> (k, a) \<in> set (map_items (Allocations i))"
  by (auto simp: entries_def)

subsection \<open>The first branches of a pass\<close>

lemma gates_params:
  assumes "gateName P' = gateName P"
  shows "checkIfPodGatedByInstaSlice P' pod = checkIfPodGatedByInstaSlice P pod
     \<and> isPodGatedByOthers P' pod = isPodGatedByOthers P pod"
proof -
  have "checkIfPodGatedByInstaSlice_loop P' pod gs = checkIfPodGatedByInstaSlice_loop P pod gs" for gs
    by (induction gs) (simp_all add: assms split: list.splits)
  moreover have "isPodGatedByOthers_loop P' gs = isPodGatedByOthers_loop P gs" for gs
    by (induction gs) (simp_all add: assms)
  ultimately show ?thesis
    by (simp add: checkIfPodGatedByInstaSlice_def isPodGatedByOthers_def)
qed

lemma gated_pending: "checkIfPodGatedByInstaSlice P pod = Inr True \<Longrightarrow> Phase pod = PodPending"
  by (simp add: checkIfPodGatedByInstaSlice_def checkIfPodGatedByInstaSlice_loop_True)

text \<open>
  A pod gated by the system alone, every client call going through: the finalizer is
  written when it is absent, and the pass goes on to the branches on phase and deletion.
\<close>

lemma Reconcile_gated_prelude:
  assumes "faults w = []"
    and "find (\<lambda>p. pod_key p = req) (pods w) = Some pod"
    and "\<not> isPodGatedByOthers P pod"
    and "checkIfPodGatedByInstaSlice P pod = Inr True"
  shows "Reconcile P E req w =
     (if ContainsFinalizer pod (finalizerName P) then reconcile_pod P E req (instaslices w) True pod w
      else reconcile_pod P E req (instaslices w) True
             (pod\<lparr>Finalizers := Finalizers pod @ [finalizerName P]\<rparr>)
             (w\<lparr>pods := map (\<lambda>q. if pod_key q = req
                   then pod\<lparr>Finalizers := Finalizers pod @ [finalizerName P]\<rparr> else q) (pods w)\<rparr>))"
proof -
  have k: "pod_key pod = req" using find_key [OF assms(2)] by blast
  have u: "Update_Pod (pod\<lparr>Finalizers := Finalizers pod @ [finalizerName P]\<rparr>) w
     = (None, w\<lparr>pods := map (\<lambda>q. if pod_key q = req
          then pod\<lparr>Finalizers := Finalizers pod @ [finalizerName P]\<rparr> else q) (pods w)\<rparr>)"
    using Update_Pod_ok [OF assms(1), of "pod\<lparr>Finalizers := Finalizers pod @ [finalizerName P]\<rparr>" pod]
      assms(2) k
    by simp
  show ?thesis
    using assms(3,4)
    by (simp add: Reconcile_def List_Instaslices_ok [OF assms(1)] Get_Pod_ok [OF assms(1,2)]
        add_finalizer_def u)
qed

lemma Reconcile_prelude_finalizer:
  assumes "faults w = []"
    and "find (\<lambda>p. pod_key p = req) (pods w) = Some pod"
    and "\<not> isPodGatedByOthers P pod"
    and "checkIfPodGatedByInstaSlice P pod = Inr b"
    and "ContainsFinalizer pod (finalizerName P)"
  shows "Reconcile P E req w = reconcile_pod P E req (instaslices w) b pod w"
  using assms(3-5)
  by (simp add: Reconcile_def List_Instaslices_ok [OF assms(1)] Get_Pod_ok [OF assms(1,2)]
      add_finalizer_def)

lemma reconcile_gated_multi:
  "length (Containers pod) \<noteq> 1 \<Longrightarrow> reconcile_gated P E items pod w =
     (Returned Result_zero (Some (Errorf ''multiple containers per pod not supported'')), w)"
  by (cases "Containers pod"; cases "tl (Containers pod)") (auto simp: reconcile_gated_def)

lemma reconcile_pod_gated:
  "Phase pod = PodPending \<Longrightarrow> DeletionTimestamp pod = None \<Longrightarrow>
   reconcile_pod P E req items True pod w = reconcile_gated P E items pod w"
  by (simp add: reconcile_pod_def)

subsection \<open>The configuration error\<close>

text \<open>
  Claim C3 says that every gated workload that requests more than one resource unit in
  one request makes the pass return a configuration error, with no requeue, no
  allocation attempt and no change of the inventory. Four passes show otherwise.
  A gated pod with two containers whose deletion has been requested: no error, and its
  created entry is set to deleting. A gated pod with one container that asks for two
  slices: no error, and an entry is allocated for it. A gated pod with two containers
  that lacks the finalizer, when the write of the finalizer fails: retry-now and no
  error. A pod with two containers held by the gate of the system and by another gate:
  the empty result and no error.
\<close>

theorem multiple_units_counterexample:
  "Reconcile example_params example_env_late (''default'', ''w1'')
      (example_world [two_container_deleting_pod] AllocationStatusCreated)
   = (Returned Result_zero None,
      example_world [two_container_deleting_pod] AllocationStatusDeleting)
   \<and> Reconcile (example_params\<lparr>findNodeAndDeviceForASlice := example_search\<rparr>) example_env
      (''default'', ''w1'')
      \<lparr>pods = [two_unit_pod], instaslices = [empty_inventory], faults = []\<rparr>
   = (Returned Result_zero None, example_world [two_unit_pod] AllocationStatusCreating)
   \<and> Reconcile example_params example_env (''default'', ''w1'')
      (example_world [two_container_unfinalized_pod] AllocationStatusCreated
         \<lparr>faults := [False, False, True]\<rparr>)
   = (Returned \<lparr>Requeue = True, RequeueAfter = 0\<rparr> None,
      example_world [two_container_unfinalized_pod] AllocationStatusCreated)
   \<and> Reconcile example_params example_env (''default'', ''w1'')
      (example_world [doubly_gated_pod] AllocationStatusCreated)
   = (Returned Result_zero None, example_world [doubly_gated_pod] AllocationStatusCreated)"
  by code_simp

text \<open>
  Claim C3, amended. The unit the controller counts is the container, not the quantity
  a container asks for. Take a stored pod that is gated by the system and by no other
  gate, for which no deletion has been requested and whose number of containers is not
  one (so in particular more than one), and let every client call of the pass go
  through. Then the pass returns the configuration error together with the empty
  result, so without asking for a requeue; the inventory is left as it was; and the
  placement search has no part in the outcome: replacing it by any other search
  changes nothing.
\<close>

theorem multiple_containers_config_error:
  assumes "faults w = []"
    and "find (\<lambda>p. pod_key p = req) (pods w) = Some pod"
    and "\<not> isPodGatedByOthers P pod"
    and "checkIfPodGatedByInstaSlice P pod = Inr True"
    and "DeletionTimestamp pod = None"
    and "length (Containers pod) \<noteq> 1"
  shows "fst (Reconcile P E req w)
       = Returned Result_zero (Some (Errorf ''multiple containers per pod not supported''))
     \<and> instaslices (snd (Reconcile P E req w)) = instaslices w
     \<and> Reconcile (P\<lparr>findNodeAndDeviceForASlice := f\<rparr>) E req w = Reconcile P E req w"
proof -
  let ?P = "P\<lparr>findNodeAndDeviceForASlice := f\<rparr>"
  have ph: "Phase pod = PodPending" using assms(4) by (rule gated_pending)
  have g: "checkIfPodGatedByInstaSlice ?P pod = checkIfPodGatedByInstaSlice P pod
     \<and> isPodGatedByOthers ?P pod = isPodGatedByOthers P pod"
    by (rule gates_params) simp
  have r: "Reconcile Q E req w =
     (Returned Result_zero (Some (Errorf ''multiple containers per pod not supported'')),
      if ContainsFinalizer pod (finalizerName Q) then w
      else w\<lparr>pods := map (\<lambda>q. if pod_key q = req
                   then pod\<lparr>Finalizers := Finalizers pod @ [finalizerName Q]\<rparr> else q) (pods w)\<rparr>)"
    if "\<not> isPodGatedByOthers Q pod" "checkIfPodGatedByInstaSlice Q pod = Inr True" for Q
    using assms(5,6) ph
    by (simp add: Reconcile_gated_prelude [OF assms(1,2) that] reconcile_pod_gated
        reconcile_gated_multi)
  have "Reconcile ?P E req w = Reconcile P E req w"
    using r [of P] r [of ?P] g assms(3,4) by simp
  then show ?thesis
    using r [of P] assms(3,4) by simp
qed

theorem multiple_containers_config_error_witness:
  "fst (Reconcile example_params example_env (''default'', ''w1'')
          (example_world [two_container_pod] AllocationStatusCreated))
     = Returned Result_zero (Some (Errorf ''multiple containers per pod not supported''))
   \<and> instaslices (snd (Reconcile example_params example_env (''default'', ''w1'')
          (example_world [two_container_pod] AllocationStatusCreated)))
     = instaslices (example_world [two_container_pod] AllocationStatusCreated)
   \<and> Reconcile (example_params\<lparr>findNodeAndDeviceForASlice := example_search\<rparr>) example_env
         (''default'', ''w1'') (example_world [two_container_pod] AllocationStatusCreated)
     = Reconcile example_params example_env (''default'', ''w1'')
         (example_world [two_container_pod] AllocationStatusCreated)"
proof (rule multiple_containers_config_error)
  show "faults (example_world [two_container_pod] AllocationStatusCreated) = []"
    by (simp add: example_world_def)
  show "find (\<lambda>p. pod_key p = (''default'', ''w1''))
          (pods (example_world [two_container_pod] AllocationStatusCreated)) = Some two_container_pod"
    by (simp add: example_world_def two_container_pod_def example_pod_def pod_key_def)
  show "\<not> isPodGatedByOthers example_params two_container_pod"
    by code_simp
  show "checkIfPodGatedByInstaSlice example_params two_container_pod = Inr True"
    by code_simp
  show "DeletionTimestamp two_container_pod = None"
    by (simp add: two_container_pod_def example_pod_def)
  show "length (Containers two_container_pod) \<noteq> 1"
    by (simp add: two_container_pod_def example_pod_def)
qed

subsection \<open>Adding the finalizer\<close>

text \<open>
  Claim C7 says that a pass which adds the finalizer returns the retry-now directive
  and processes no further branch. Here the pod is gated by the system, lacks the
  finalizer, its entry is created and the device plugin is healthy: the one pass adds
  the finalizer, marks the entry ungated, sets the node selector, removes the gate and
  returns the empty result.
\<close>

theorem finalizer_added_counterexample:
  "Reconcile example_params example_env (''default'', ''w1'')
      (example_world [unfinalized_pod, device_plugin_pod PodRunning] AllocationStatusCreated)
   = (Returned Result_zero None,
      example_world [ungated_pod, device_plugin_pod PodRunning] AllocationStatusUngated)"
  by code_simp

text \<open>
  Claim C7, amended. Take a stored pod that is gated by the system and by no other
  gate and does not carry the finalizer, and a pass that reads it successfully. The
  pass writes the pod with the finalizer appended. When that write fails, the pass
  returns the retry-now directive and changes nothing. When that write goes through,
  the pass does not return at that point: it continues, in the same pass, with the
  branches on phase, deletion and allocation, on the pod and the store that now carry
  the finalizer, and its outcome (directive and store) is that of a pass started on
  the store in which the finalizer was already there, whatever the later client calls
  do; that outcome can be any directive, retry-now included.
  In the statement the fault script \<open>l # False # b # fs\<close> reads: the listing of the
  inventory fails or not (\<open>l\<close>), the read of the pod goes through, the write of the
  finalizer fails (\<open>b\<close> true) or not, and \<open>fs\<close> is left for the later calls. The first two
  conjuncts are the case of the empty script, in which no call fails.
\<close>

theorem finalizer_added_then_pass_continues:
  assumes "find (\<lambda>p. pod_key p = req) (pods w) = Some pod"
    and "\<not> isPodGatedByOthers P pod"
    and "checkIfPodGatedByInstaSlice P pod = Inr True"
    and "\<not> ContainsFinalizer pod (finalizerName P)"
  shows "Reconcile P E req (w\<lparr>faults := []\<rparr>)
       = reconcile_pod P E req (instaslices w) True
           (pod\<lparr>Finalizers := Finalizers pod @ [finalizerName P]\<rparr>)
           (w\<lparr>faults := [], pods := map (\<lambda>q. if pod_key q = req
                then pod\<lparr>Finalizers := Finalizers pod @ [finalizerName P]\<rparr> else q) (pods w)\<rparr>)
     \<and> Reconcile P E req (w\<lparr>faults := []\<rparr>)
       = Reconcile P E req (w\<lparr>faults := [], pods := map (\<lambda>q. if pod_key q = req
                then pod\<lparr>Finalizers := Finalizers pod @ [finalizerName P]\<rparr> else q) (pods w)\<rparr>)
     \<and> Reconcile P E req (w\<lparr>faults := l # False # False # fs\<rparr>)
       = reconcile_pod P E req (if l then [] else instaslices w) True
           (pod\<lparr>Finalizers := Finalizers pod @ [finalizerName P]\<rparr>)
           (w\<lparr>faults := fs, pods := map (\<lambda>q. if pod_key q = req
                then pod\<lparr>Finalizers := Finalizers pod @ [finalizerName P]\<rparr> else q) (pods w)\<rparr>)
     \<and> Reconcile P E req (w\<lparr>faults := l # False # False # fs\<rparr>)
       = Reconcile P E req (w\<lparr>faults := l # False # fs, pods := map (\<lambda>q. if pod_key q = req
                then pod\<lparr>Finalizers := Finalizers pod @ [finalizerName P]\<rparr> else q) (pods w)\<rparr>)
     \<and> Reconcile P E req (w\<lparr>faults := l # False # True # fs\<rparr>)
       = (Returned \<lparr>Requeue = True, RequeueAfter = 0\<rparr> None, w\<lparr>faults := fs\<rparr>)"
proof -
  let ?pod = "pod\<lparr>Finalizers := Finalizers pod @ [finalizerName P]\<rparr>"
  let ?ps = "map (\<lambda>q. if pod_key q = req then ?pod else q) (pods w)"
  let ?w0 = "w\<lparr>faults := []\<rparr>"
  let ?w1 = "w\<lparr>faults := [], pods := ?ps\<rparr>"
  have k: "pod_key pod = req" and m: "pod \<in> set (pods w)"
    using find_key [OF assms(1)] by blast+
  have ex: "list_ex (\<lambda>q. pod_key q = req) (pods w)"
    using k m by (auto simp: list_ex_iff)
  have f0: "faults ?w0 = []" and f1: "faults ?w1 = []" by simp_all
  have p0: "find (\<lambda>p. pod_key p = req) (pods ?w0) = Some pod" using assms(1) by simp
  have fr: "find (\<lambda>p. pod_key p = req) ?ps = Some ?pod"
    using find_replaced [OF assms(1), of ?pod] k by simp
  have p1: "find (\<lambda>p. pod_key p = req) (pods ?w1) = Some ?pod"
    using fr by simp
  have g: "\<not> isPodGatedByOthers P ?pod" "checkIfPodGatedByInstaSlice P ?pod = Inr True"
    using assms(2,3)
    by (simp_all add: checkIfPodGatedByInstaSlice_def isPodGatedByOthers_def
        checkIfPodGatedByInstaSlice_loop_True)
  have cf: "ContainsFinalizer ?pod (finalizerName P)"
    by (simp add: ContainsFinalizer_def)
  have a: "Reconcile P E req ?w0 = reconcile_pod P E req (instaslices w) True ?pod ?w1"
    using assms(4) by (simp add: Reconcile_gated_prelude [OF f0 p0 assms(2,3)])
  have b: "Reconcile P E req ?w1 = reconcile_pod P E req (instaslices w) True ?pod ?w1"
    by (simp add: Reconcile_gated_prelude [OF f1 p1 g] ContainsFinalizer_def)
  have c: "Reconcile P E req (w\<lparr>faults := l # False # True # fs\<rparr>)
       = (Returned \<lparr>Requeue = True, RequeueAfter = 0\<rparr> None, w\<lparr>faults := fs\<rparr>)"
    using assms
    by (cases l) (simp_all add: Reconcile_def List_Instaslices_def Get_Pod_def tick_def
        add_finalizer_def Update_Pod_def)
  have d: "Reconcile P E req (w\<lparr>faults := l # False # False # fs\<rparr>)
       = reconcile_pod P E req (if l then [] else instaslices w) True ?pod
           (w\<lparr>faults := fs, pods := ?ps\<rparr>)"
    using assms ex k
    by (cases l) (simp_all add: Reconcile_def List_Instaslices_def Get_Pod_def tick_def
        add_finalizer_def Update_Pod_def)
  have sw: "w\<lparr>pods := ?ps, faults := fs\<rparr> = w\<lparr>faults := fs, pods := ?ps\<rparr>"
    by (cases w) simp
  have e: "Reconcile P E req (w\<lparr>faults := l # False # fs, pods := ?ps\<rparr>)
       = reconcile_pod P E req (if l then [] else instaslices w) True ?pod
           (w\<lparr>faults := fs, pods := ?ps\<rparr>)"
    using g cf fr
    by (cases l) (simp_all add: Reconcile_def List_Instaslices_def Get_Pod_def tick_def
        add_finalizer_def sw)
  show ?thesis using a b c d e by simp
qed

theorem finalizer_added_then_pass_continues_witness:
  "Reconcile example_params example_env (''default'', ''w1'')
      (example_world [unfinalized_pod] AllocationStatusCreating\<lparr>faults := [False, False, True]\<rparr>)
     = (Returned \<lparr>Requeue = True, RequeueAfter = 0\<rparr> None,
        example_world [unfinalized_pod] AllocationStatusCreating)
   \<and> Reconcile example_params example_env (''default'', ''w1'')
      (example_world [unfinalized_pod] AllocationStatusCreating)
     = Reconcile example_params example_env (''default'', ''w1'')
      (example_world [example_pod] AllocationStatusCreating)"
proof -
  let ?w = "example_world [unfinalized_pod] AllocationStatusCreating"
  have h1: "find (\<lambda>p. pod_key p = (''default'', ''w1'')) (pods ?w) = Some unfinalized_pod"
    by (simp add: example_world_def unfinalized_pod_def example_pod_def pod_key_def)
  have h2: "\<not> isPodGatedByOthers example_params unfinalized_pod" by code_simp
  have h3: "checkIfPodGatedByInstaSlice example_params unfinalized_pod = Inr True" by code_simp
  have h4: "\<not> ContainsFinalizer unfinalized_pod (finalizerName example_params)"
    by (simp add: ContainsFinalizer_def unfinalized_pod_def)
  have e0: "?w\<lparr>faults := []\<rparr> = ?w" by (simp add: example_world_def)
  have e1: "?w\<lparr>pods := map (\<lambda>q. if pod_key q = (''default'', ''w1'')
                then unfinalized_pod\<lparr>Finalizers :=
                       Finalizers unfinalized_pod @ [finalizerName example_params]\<rparr>
                else q) (pods ?w)\<rparr>
        = example_world [example_pod] AllocationStatusCreating"
    by (simp add: example_world_def unfinalized_pod_def example_pod_def pod_key_def
        example_params_def)
  show ?thesis
    using finalizer_added_then_pass_continues [OF h1 h2 h3 h4, of example_env False "[]"]
    unfolding e0 e1 by blast
qed

subsection \<open>The grace period of a running pod\<close>

lemma mark_deleting_ok:
  assumes "faults w = []" and "distinct (map instaslice_key (instaslices w))"
    and "inst \<in> set (instaslices w)"
    and "InstasliceNamespace inst = instaSliceOperatorNamespace P"
    and "Allocations inst = Some kvs"
  shows "mark_deleting P r1 r2 inst k a w = Inr (w\<lparr>instaslices :=
      map (\<lambda>j. if instaslice_key j = instaslice_key inst
                then inst\<lparr>Allocations := Some (AList.update k
                        (a\<lparr>Allocationstatus := AllocationStatusDeleting\<rparr>) kvs)\<rparr>
                else j) (instaslices w)\<rparr>)"
proof -
  have kk: "(instaSliceOperatorNamespace P, InstasliceName inst) = instaslice_key inst"
    using assms(4) by (simp add: instaslice_key_def)
  have g: "Get_Instaslice (instaSliceOperatorNamespace P, InstasliceName inst) w = (Inr inst, w)"
    unfolding kk using find_distinct_key [OF assms(2,3)] by (intro Get_Instaslice_ok [OF assms(1)])
  have u: "Update_Instaslice (inst\<lparr>Allocations := Some (AList.update k
                        (a\<lparr>Allocationstatus := AllocationStatusDeleting\<rparr>) kvs)\<rparr>) w
     = (None, w\<lparr>instaslices :=
      map (\<lambda>j. if instaslice_key j = instaslice_key inst
                then inst\<lparr>Allocations := Some (AList.update k
                        (a\<lparr>Allocationstatus := AllocationStatusDeleting\<rparr>) kvs)\<rparr>
                else j) (instaslices w)\<rparr>)"
    by (rule Update_Instaslice_ok [OF assms(1,3)]) (simp add: instaslice_key_def)
  show ?thesis
    by (simp add: mark_deleting_def g map_assign_def assms(5) u)
qed

lemma reconcile_deleted_unique:
  assumes "ContainsFinalizer pod (finalizerName P)"
    and "filter (\<lambda>(i, k, a). k = UID pod) (entries items) = [(inst, k, a)]"
  shows "reconcile_deleted P E req items pod t w =
     (case deleted_body P E req pod t inst (k, a) w of
        Inl r \<Rightarrow> r | Inr w1 \<Rightarrow> (Returned Result_zero None, w1))"
proof -
  have "for_range (\<lambda>(instaslice, kv). deleted_body P E req pod t instaslice kv) (entries items) w
      = (\<lambda>(instaslice, kv). deleted_body P E req pod t instaslice kv) (inst, k, a) w"
    by (rule for_range_unique [OF assms(2)]) auto
  then show ?thesis
    using assms(1) by (simp add: reconcile_deleted_def for_range_entries)
qed

text \<open>
  Claim C5 says that a pass on a pod that is no longer gated, carries the finalizer and
  is being deleted changes nothing while less than thirty seconds have passed. Here
  ten seconds have passed and the entry bound to the pod is already deleted: the pass
  erases the entry and removes the finalizer from the pod before it asks to be run
  again after the remaining twenty seconds.
\<close>

theorem grace_period_counterexample:
  "Reconcile example_params example_env (''default'', ''w1'')
      (example_world [deleting_pod] AllocationStatusDeleted)
   = (Returned \<lparr>Requeue = False, RequeueAfter = 20 * Second\<rparr> None,
      \<lparr>pods = [deleting_pod\<lparr>Finalizers := []\<rparr>],
       instaslices = [(example_instaslice AllocationStatusDeleted)\<lparr>Allocations := Some []\<rparr>],
       faults = []\<rparr>)"
  by code_simp

text \<open>
  Claim C5, amended. Take a pod that is no longer gated by the system (nor by anything
  else), neither failed nor succeeded, carrying the finalizer, whose deletion has been
  requested, and let the inventory hold exactly one entry under the pod's identity,
  with a status other than deleted; every client call goes through. If the time since
  the deletion request is under thirty seconds, the pass changes nothing and asks to
  be run again after the remaining time. Once it exceeds thirty seconds (and the
  inventory object is stored in the operator's namespace, under a key of its own) the
  pass sets the status of that entry to deleting, changes nothing else and returns
  the empty result.
\<close>

theorem grace_period_bound_entry:
  assumes "faults w = []"
    and "find (\<lambda>p. pod_key p = req) (pods w) = Some pod"
    and "\<not> isPodGatedByOthers P pod"
    and "checkIfPodGatedByInstaSlice P pod = Inr False"
    and "ContainsFinalizer pod (finalizerName P)"
    and "Phase pod \<noteq> PodFailed" and "Phase pod \<noteq> PodSucceeded"
    and "DeletionTimestamp pod = Some t"
    and "filter (\<lambda>(i, k, a). k = UID pod) (entries (instaslices w)) = [(inst, k, a)]"
    and "Allocationstatus a \<noteq> AllocationStatusDeleted"
  shows "(0 \<le> now E - t \<and> now E - t < 30 * Second \<longrightarrow>
            Reconcile P E req w =
              (Returned \<lparr>Requeue = False, RequeueAfter = 30 * Second - (now E - t)\<rparr> None, w))
     \<and> (30 * Second < now E - t \<and> InstasliceNamespace inst = instaSliceOperatorNamespace P
          \<and> distinct (map instaslice_key (instaslices w)) \<longrightarrow>
            Reconcile P E req w =
              (Returned Result_zero None,
               w\<lparr>instaslices := map (\<lambda>j. if instaslice_key j = instaslice_key inst
                   then inst\<lparr>Allocations := Some (AList.update (UID pod)
                           (a\<lparr>Allocationstatus := AllocationStatusDeleting\<rparr>)
                           (map_items (Allocations inst)))\<rparr>
                   else j) (instaslices w)\<rparr>))"
proof -
  have mem: "(inst, k, a) \<in> set (filter (\<lambda>(i, k, a). k = UID pod) (entries (instaslices w)))"
    unfolding assms(9) by simp
  then have k: "k = UID pod" and i: "inst \<in> set (instaslices w)"
    and ka: "(k, a) \<in> set (map_items (Allocations inst))"
    by (auto simp: entries_member)
  from ka obtain kvs where kvs: "Allocations inst = Some kvs"
    by (cases "Allocations inst") (auto simp: map_items_def)
  have r: "Reconcile P E req w =
     (case deleted_body P E req pod t inst (k, a) w of
        Inl r \<Rightarrow> r | Inr w1 \<Rightarrow> (Returned Result_zero None, w1))"
    using assms(6-8)
    by (simp add: Reconcile_prelude_finalizer [OF assms(1-5)] reconcile_pod_def
        reconcile_deleted_unique [OF assms(5,9)])
  have early: "Reconcile P E req w =
      (Returned \<lparr>Requeue = False, RequeueAfter = 30 * Second - (now E - t)\<rparr> None, w)"
    if "0 \<le> now E - t" "now E - t < 30 * Second"
  proof -
    have s: "Since (now E) t = now E - t" using that by (simp add: Since_def)
    have "wrap64 (30 * Second - (now E - t)) = 30 * Second - (now E - t)"
      using that by (simp add: wrap64_def)
    then show ?thesis
      using that assms(10) by (simp add: r k s)
  qed
  have late: "Reconcile P E req w =
              (Returned Result_zero None,
               w\<lparr>instaslices := map (\<lambda>j. if instaslice_key j = instaslice_key inst
                   then inst\<lparr>Allocations := Some (AList.update (UID pod)
                           (a\<lparr>Allocationstatus := AllocationStatusDeleting\<rparr>)
                           (map_items (Allocations inst)))\<rparr>
                   else j) (instaslices w)\<rparr>)"
    if "30 * Second < now E - t" "InstasliceNamespace inst = instaSliceOperatorNamespace P"
      "distinct (map instaslice_key (instaslices w))"
  proof -
    have s: "30 * Second < Since (now E) t" using that(1) by (simp add: Since_def)
    show ?thesis
      using assms(10) s
      by (simp add: r k mark_deleting_ok [OF assms(1) that(3) i that(2) kvs] kvs map_items_def)
  qed
  show ?thesis using early late by blast
qed

theorem grace_period_bound_entry_witness:
  "Reconcile example_params example_env (''default'', ''w1'')
      (example_world [deleting_pod] AllocationStatusCreated)
     = (Returned \<lparr>Requeue = False, RequeueAfter = 20 * Second\<rparr> None,
        example_world [deleting_pod] AllocationStatusCreated)
   \<and> Reconcile example_params example_env_late (''default'', ''w1'')
      (example_world [deleting_pod] AllocationStatusCreated)
     = (Returned Result_zero None, example_world [deleting_pod] AllocationStatusDeleting)"
proof -
  let ?w = "example_world [deleting_pod] AllocationStatusCreated"
  have h1: "faults ?w = []" by (simp add: example_world_def)
  have h2: "find (\<lambda>p. pod_key p = (''default'', ''w1'')) (pods ?w) = Some deleting_pod"
    by (simp add: example_world_def deleting_pod_def running_pod_def example_pod_def pod_key_def)
  have h3: "\<not> isPodGatedByOthers example_params deleting_pod" by code_simp
  have h4: "checkIfPodGatedByInstaSlice example_params deleting_pod = Inr False" by code_simp
  have h5: "ContainsFinalizer deleting_pod (finalizerName example_params)"
    by (simp add: ContainsFinalizer_def deleting_pod_def running_pod_def example_pod_def
        example_params_def)
  have h6: "Phase deleting_pod \<noteq> PodFailed" and h7: "Phase deleting_pod \<noteq> PodSucceeded"
    by (simp_all add: deleting_pod_def running_pod_def)
  have h8: "DeletionTimestamp deleting_pod = Some (90 * Second)"
    by (simp add: deleting_pod_def)
  have h9: "filter (\<lambda>(i, k, a). k = UID deleting_pod) (entries (instaslices ?w))
      = [(example_instaslice AllocationStatusCreated, ''uid-1'',
          example_allocation AllocationStatusCreated)]"
    by (simp add: example_world_def entries_def example_instaslice_def map_items_def
        deleting_pod_def running_pod_def example_pod_def)
  have h10: "Allocationstatus (example_allocation AllocationStatusCreated) \<noteq> AllocationStatusDeleted"
    by (simp add: example_allocation_def)
  have l: "?w\<lparr>instaslices := map (\<lambda>j. if instaslice_key j
                       = instaslice_key (example_instaslice AllocationStatusCreated)
                   then (example_instaslice AllocationStatusCreated)\<lparr>Allocations :=
                          Some (AList.update (UID deleting_pod)
                           ((example_allocation AllocationStatusCreated)\<lparr>Allocationstatus :=
                               AllocationStatusDeleting\<rparr>)
                           (map_items (Allocations (example_instaslice AllocationStatusCreated))))\<rparr>
                   else j) (instaslices ?w)\<rparr> = example_world [deleting_pod] AllocationStatusDeleting"
    by (simp add: example_world_def example_instaslice_def example_allocation_def map_items_def
        deleting_pod_def running_pod_def example_pod_def)
  have d: "InstasliceNamespace (example_instaslice AllocationStatusCreated)
             = instaSliceOperatorNamespace example_params
     \<and> distinct (map instaslice_key (instaslices ?w))"
    by (simp add: example_world_def example_instaslice_def example_params_def)
  show ?thesis
    using grace_period_bound_entry [OF h1 h2 h3 h4 h5 h6 h7 h8 h9 h10, of example_env]
      grace_period_bound_entry [OF h1 h2 h3 h4 h5 h6 h7 h8 h9 h10, of example_env_late] d
    unfolding l by (simp add: example_env_def example_env_late_def)
qed

subsection \<open>Entries found by a loop\<close>

lemma find_SomeD: "find Q xs = Some x \<Longrightarrow> Q x \<and> x \<in> set xs"
  by (induction xs) (auto split: if_splits)

text \<open>The loop state does not change while the body passes over the elements.\<close>

lemma for_range_first_at:
  assumes "find Q xs = Some x" and "\<And>y. \<not> Q y \<Longrightarrow> body y s = Inr s" and "body x s = Inl r"
  shows "for_range body xs s = Inl r"
  using assms(1)
proof (induction xs)
  case Nil
  then show ?case by simp
next
  case (Cons y ys)
  then show ?case using assms(2,3) by (cases "Q y") auto
qed

lemma not_pending_not_gated:
  assumes "Phase pod \<noteq> PodPending"
  shows "checkIfPodGatedByInstaSlice P pod = Inr False"
proof -
  have "checkIfPodGatedByInstaSlice_loop P pod gs = Inr False" for gs
    by (induction gs) (simp_all add: assms)
  then show ?thesis by (simp add: checkIfPodGatedByInstaSlice_def)
qed

lemma setInstasliceAllocationToDeleting_ok:
  assumes "faults w = []" and "distinct (map instaslice_key (instaslices w))"
    and "inst \<in> set (instaslices w)"
    and "InstasliceNamespace inst = instaSliceOperatorNamespace P"
    and "Allocations inst = Some kvs"
  shows "setInstasliceAllocationToDeleting P (InstasliceName inst) k a w =
     (Returned Result_zero None, w\<lparr>instaslices :=
      map (\<lambda>j. if instaslice_key j = instaslice_key inst
                then inst\<lparr>Allocations := Some (AList.update k
                        (a\<lparr>Allocationstatus := AllocationStatusDeleting\<rparr>) kvs)\<rparr>
                else j) (instaslices w)\<rparr>)"
proof -
  have kk: "(instaSliceOperatorNamespace P, InstasliceName inst) = instaslice_key inst"
    using assms(4) by (simp add: instaslice_key_def)
  have g: "Get_Instaslice (instaSliceOperatorNamespace P, InstasliceName inst) w = (Inr inst, w)"
    unfolding kk using find_distinct_key [OF assms(2,3)] by (intro Get_Instaslice_ok [OF assms(1)])
  have u: "Update_Instaslice (inst\<lparr>Allocations := Some (AList.update k
                        (a\<lparr>Allocationstatus := AllocationStatusDeleting\<rparr>) kvs)\<rparr>) w
     = (None, w\<lparr>instaslices :=
      map (\<lambda>j. if instaslice_key j = instaslice_key inst
                then inst\<lparr>Allocations := Some (AList.update k
                        (a\<lparr>Allocationstatus := AllocationStatusDeleting\<rparr>) kvs)\<rparr>
                else j) (instaslices w)\<rparr>)"
    by (rule Update_Instaslice_ok [OF assms(1,3)]) (simp add: instaslice_key_def)
  show ?thesis
    by (simp add: setInstasliceAllocationToDeleting_def g map_assign_def assms(5) u)
qed

subsection \<open>A pod that was not found\<close>

text \<open>
  The scan of the branch compares the pod name of every entry with the name of the
  zero-valued pod, the empty string: an inventory whose entries all carry a pod name
  is left as it is, whatever the request names.
\<close>

lemma notfound_named_entries_untouched:
  assumes "faults w = []"
    and "find (\<lambda>p. pod_key p = req) (pods w) = None"
    and "list_all (\<lambda>(i, k, a). PodName a \<noteq> []) (entries (instaslices w))"
  shows "Reconcile P E req w = (Returned Result_zero None, w)"
proof -
  have "for_range (\<lambda>(instaslice, kv). notfound_body instaslice kv) (entries (instaslices w)) w = Inr w"
    using assms(3) by (intro for_range_skip) (auto simp: list_all_iff Pod_zero_def)
  then show ?thesis
    using assms(2)
    by (simp add: Reconcile_def List_Instaslices_ok [OF assms(1)] Get_Pod_def
        tick_nofault [OF assms(1)] reconcile_notfound_def for_range_entries)
qed

text \<open>
  Claim C2 (the pass on a pod that was not found removes the entry bound to the
  identity of that pod). The request names \<^verbatim>\<open>default/w1\<close>, no such pod is stored, and
  the inventory of \<^verbatim>\<open>node-1\<close> holds the entry of pod \<^verbatim>\<open>w1\<close>: the pass returns the
  empty result and the entry is still there. What the scan does remove is an entry
  whose pod name is empty, here one of another pod.
\<close>

theorem notfound_keeps_entry_of_named_pod:
  "Reconcile example_params example_env (''default'', ''w1'')
      (example_world [] AllocationStatusUngated)
   = (Returned Result_zero None, example_world [] AllocationStatusUngated)
   \<and> Reconcile example_params example_env (''default'', ''w1'')
      \<lparr>pods = [],
       instaslices = [\<lparr>InstasliceNamespace = ''default'', InstasliceName = ''node-1'',
          Allocations = Some [(''uid-2'', (example_allocation AllocationStatusUngated)
                                  \<lparr>PodUUID := ''uid-2'', PodName := []\<rparr>)],
          Prepared = None\<rparr>],
       faults = []\<rparr>
   = (Returned Result_zero None,
      \<lparr>pods = [],
       instaslices = [\<lparr>InstasliceNamespace = ''default'', InstasliceName = ''node-1'',
          Allocations = Some [], Prepared = None\<rparr>],
       faults = []\<rparr>)"
  by code_simp

subsection \<open>Terminal phases\<close>

text \<open>A failed pod whose first bound entry is still being created: wait, change nothing.\<close>

lemma failed_pod_creating_entry_waits:
  assumes "faults w = []"
    and "find (\<lambda>p. pod_key p = req) (pods w) = Some pod"
    and "\<not> isPodGatedByOthers P pod"
    and "Phase pod = PodFailed"
    and "ContainsFinalizer pod (finalizerName P)"
    and "find (\<lambda>(i, k, a). PodUUID a = UID pod) (entries (instaslices w)) = Some (inst, k, a)"
    and "Allocationstatus a = AllocationStatusCreating"
  shows "Reconcile P E req w = (Returned \<lparr>Requeue = False, RequeueAfter = 2 * Second\<rparr> None, w)"
proof -
  have g: "checkIfPodGatedByInstaSlice P pod = Inr False"
    using assms(4) by (intro not_pending_not_gated) simp
  have u: "PodUUID a = UID pod"
    using find_SomeD [OF assms(6)] by auto
  have "for_range (\<lambda>(instaslice, kv). failed_body P pod instaslice kv)
          (entries (instaslices w)) (True, w)
      = Inl (Returned \<lparr>Requeue = False, RequeueAfter = 2 * Second\<rparr> None, w)"
    by (rule for_range_first_at [OF assms(6)]) (auto simp: u assms(7))
  then show ?thesis
    using assms(4,5)
    by (simp add: Reconcile_prelude_finalizer [OF assms(1-3) g assms(5)] reconcile_pod_def
        reconcile_failed_def for_range_entries)
qed

text \<open>
  A succeeded pod: the first bound entry is marked deleting unless it is deleted
  already, so also when it is still being created.
\<close>

lemma succeeded_pod_first_entry_marked_deleting:
  assumes "faults w = []"
    and "find (\<lambda>p. pod_key p = req) (pods w) = Some pod"
    and "\<not> isPodGatedByOthers P pod"
    and "Phase pod = PodSucceeded"
    and "ContainsFinalizer pod (finalizerName P)"
    and "find (\<lambda>(i, k, a). PodUUID a = UID pod) (entries (instaslices w)) = Some (inst, k, a)"
    and "Allocationstatus a \<noteq> AllocationStatusDeleted"
    and "InstasliceNamespace inst = instaSliceOperatorNamespace P"
    and "distinct (map instaslice_key (instaslices w))"
  shows "Reconcile P E req w = (Returned Result_zero None,
      w\<lparr>instaslices := map (\<lambda>j. if instaslice_key j = instaslice_key inst
                   then inst\<lparr>Allocations := Some (AList.update (UID pod)
                           (a\<lparr>Allocationstatus := AllocationStatusDeleting\<rparr>)
                           (map_items (Allocations inst)))\<rparr>
                   else j) (instaslices w)\<rparr>)"
proof -
  have g: "checkIfPodGatedByInstaSlice P pod = Inr False"
    using assms(4) by (intro not_pending_not_gated) simp
  have "(inst, k, a) \<in> set (entries (instaslices w))" and u: "PodUUID a = UID pod"
    using find_SomeD [OF assms(6)] by auto
  then have i: "inst \<in> set (instaslices w)" and ka: "(k, a) \<in> set (map_items (Allocations inst))"
    by (auto simp: entries_member)
  from ka obtain kvs where kvs: "Allocations inst = Some kvs"
    by (cases "Allocations inst") (auto simp: map_items_def)
  have "for_range (\<lambda>(instaslice, kv). succeeded_body P pod instaslice kv)
          (entries (instaslices w)) (True, w)
      = Inl (Returned Result_zero None,
      w\<lparr>instaslices := map (\<lambda>j. if instaslice_key j = instaslice_key inst
                   then inst\<lparr>Allocations := Some (AList.update (UID pod)
                           (a\<lparr>Allocationstatus := AllocationStatusDeleting\<rparr>)
                           (map_items (Allocations inst)))\<rparr>
                   else j) (instaslices w)\<rparr>)"
    by (rule for_range_first_at [OF assms(6)])
       (auto simp: u assms(7) kvs map_items_def
          setInstasliceAllocationToDeleting_ok [OF assms(1,9) i assms(8) kvs])
  then show ?thesis
    using assms(4,5)
    by (simp add: Reconcile_prelude_finalizer [OF assms(1-3) g assms(5)] reconcile_pod_def
        reconcile_succeeded_def for_range_entries)
qed

text \<open>
  Claim C4 (a pod in a terminal phase with the finalizer, whose bound entry is being
  created: no mutation, retry after two seconds). The branch of a failed pod does so;
  the branch of a succeeded pod does not. Here the pod has succeeded and its entry is
  being created: the pass sets the entry to deleting and returns the empty result.
\<close>

theorem succeeded_pod_creating_entry_marked_deleting:
  "Reconcile example_params example_env (''default'', ''w1'')
      (example_world [succeeded_pod] AllocationStatusCreating)
   = (Returned Result_zero None, example_world [succeeded_pod] AllocationStatusDeleting)"
  by code_simp

subsection \<open>Ungating\<close>

lemma gated_body_skip:
  assumes "\<not> (PodUUID a = UID pod \<and> (Allocationstatus a = AllocationStatusCreated
            \<or> Allocationstatus a = AllocationStatusUngated))"
  shows "gated_body P i (k, a) (g, pod, w) = Inr (g, pod, w)"
proof -
  have c1: "\<not> (Allocationstatus a = AllocationStatusCreated \<and> PodUUID a = UID pod)"
    and c2: "\<not> (Allocationstatus a = AllocationStatusUngated \<and> PodUUID a = UID pod)"
    using assms by blast+
  show ?thesis
    by (simp only: gated_body.simps c1 c2 if_False sum.case prod.case)
qed

lemma reconcile_gated_first_return:
  assumes "Containers pod = [c]"
    and "find (\<lambda>(i, k, a). PodUUID a = UID pod \<and> (Allocationstatus a = AllocationStatusCreated
            \<or> Allocationstatus a = AllocationStatusUngated)) (entries items) = Some (inst, k, a)"
    and "gated_body P inst (k, a) (False, pod, w) = Inl r"
  shows "reconcile_gated P E items pod w = r"
proof -
  have "for_range (\<lambda>(instaslice, kv). gated_body P instaslice kv) (entries items) (False, pod, w)
      = Inl r"
  proof (rule for_range_first_at [OF assms(2)])
    fix y :: "Instaslice \<times> string \<times> AllocationDetails"
    assume n: "\<not> (case y of (i, k, a) \<Rightarrow> PodUUID a = UID pod
        \<and> (Allocationstatus a = AllocationStatusCreated \<or> Allocationstatus a = AllocationStatusUngated))"
    obtain i' k' a' where y: "y = (i', k', a')" by (cases y) auto
    show "(case y of (instaslice, kv) \<Rightarrow> gated_body P instaslice kv) (False, pod, w)
        = Inr (False, pod, w)"
      using gated_body_skip [of a' pod P i' k' False w] n unfolding y by simp
  next
    show "(case (inst, k, a) of (instaslice, kv) \<Rightarrow> gated_body P instaslice kv) (False, pod, w)
        = Inl r"
      using assms(3) by simp
  qed
  then show ?thesis
    by (simp add: reconcile_gated_def assms(1) for_range_entries)
qed

text \<open>
  A gated pod whose first bound entry, among those created or ungated, is created,
  while the oracle answers without error that the device plugin is not healthy: the
  status ungated is written to the inventory before the answer is looked at.
\<close>

lemma created_entry_unhealthy_report_writes_ungated:
  assumes "faults w = []"
    and "find (\<lambda>p. pod_key p = req) (pods w) = Some pod"
    and "\<not> isPodGatedByOthers P pod"
    and "checkIfPodGatedByInstaSlice P pod = Inr True"
    and "ContainsFinalizer pod (finalizerName P)"
    and "DeletionTimestamp pod = None"
    and "Containers pod = [c]"
    and "find (\<lambda>(i, k, a). PodUUID a = UID pod \<and> (Allocationstatus a = AllocationStatusCreated
            \<or> Allocationstatus a = AllocationStatusUngated)) (entries (instaslices w))
         = Some (inst, k, a)"
    and "Allocationstatus a = AllocationStatusCreated"
    and "InstasliceNamespace inst = ''default''"
    and "distinct (map instaslice_key (instaslices w))"
    and "\<not> isPatternPodRunningAndHealthy_loop ''nvidia-device-plugin-daemonset''
            (filter (\<lambda>p. Namespace p = ''gpu-operator'') (pods w))"
  shows "Reconcile P E req w = (Returned \<lparr>Requeue = False, RequeueAfter = 2 * Second\<rparr> None,
      w\<lparr>instaslices := map (\<lambda>j. if instaslice_key j = instaslice_key inst
                   then inst\<lparr>Allocations := Some (AList.update k
                           (a\<lparr>Allocationstatus := AllocationStatusUngated\<rparr>)
                           (map_items (Allocations inst)))\<rparr>
                   else j) (instaslices w)\<rparr>)"
proof -
  have m: "(inst, k, a) \<in> set (entries (instaslices w))" and u: "PodUUID a = UID pod"
    using find_SomeD [OF assms(8)] by auto
  then have i: "inst \<in> set (instaslices w)"
    by (auto simp: entries_member)
  have h: "isPatternPodRunningAndHealthy ''nvidia-device-plugin-daemonset'' ''gpu-operator'' w
      = (Inr False, w)"
    using assms(12)
    by (simp add: isPatternPodRunningAndHealthy_def List_Pods_def tick_nofault [OF assms(1)])
  have kk: "(''default'', InstasliceName inst) = instaslice_key inst"
    using assms(10) by (simp add: instaslice_key_def)
  have g: "Get_Instaslice (''default'', InstasliceName inst) w = (Inr inst, w)"
    unfolding kk using find_distinct_key [OF assms(11) i] by (intro Get_Instaslice_ok [OF assms(1)])
  have up: "Update_Instaslice (inst\<lparr>Allocations := Some (AList.update k
                (a\<lparr>Allocationstatus := AllocationStatusUngated\<rparr>) (map_items (Allocations inst)))\<rparr>) w
     = (None, w\<lparr>instaslices :=
      map (\<lambda>j. if instaslice_key j = instaslice_key inst
                then inst\<lparr>Allocations := Some (AList.update k
                  (a\<lparr>Allocationstatus := AllocationStatusUngated\<rparr>) (map_items (Allocations inst)))\<rparr>
                else j) (instaslices w)\<rparr>)"
    by (rule Update_Instaslice_ok [OF assms(1) i]) (simp add: instaslice_key_def)
  have cs: "created_step P inst k a pod w
      = Inl (Returned \<lparr>Requeue = False, RequeueAfter = 2 * Second\<rparr> None,
      w\<lparr>instaslices := map (\<lambda>j. if instaslice_key j = instaslice_key inst
                   then inst\<lparr>Allocations := Some (AList.update k
                           (a\<lparr>Allocationstatus := AllocationStatusUngated\<rparr>)
                           (map_items (Allocations inst)))\<rparr>
                   else j) (instaslices w)\<rparr>)"
    unfolding created_step_def h by (simp add: g up)
  have "reconcile_gated P E (instaslices w) pod w
      = (Returned \<lparr>Requeue = False, RequeueAfter = 2 * Second\<rparr> None,
      w\<lparr>instaslices := map (\<lambda>j. if instaslice_key j = instaslice_key inst
                   then inst\<lparr>Allocations := Some (AList.update k
                           (a\<lparr>Allocationstatus := AllocationStatusUngated\<rparr>)
                           (map_items (Allocations inst)))\<rparr>
                   else j) (instaslices w)\<rparr>)"
    by (rule reconcile_gated_first_return [OF assms(7,8)])
       (simp add: u assms(9) cs)
  then show ?thesis
    using assms(5,6) gated_pending [OF assms(4)]
    by (simp add: Reconcile_gated_prelude [OF assms(1-4)] reconcile_pod_gated)
qed

text \<open>
  A gated pod whose first bound entry, among those created or ungated, is ungated: the
  flag that guards the ungating step is still false, whatever the oracle would answer,
  and the pass asks to be run again after two seconds without changing anything.
\<close>

lemma ungated_entry_gate_present_waits:
  assumes "faults w = []"
    and "find (\<lambda>p. pod_key p = req) (pods w) = Some pod"
    and "\<not> isPodGatedByOthers P pod"
    and "checkIfPodGatedByInstaSlice P pod = Inr True"
    and "ContainsFinalizer pod (finalizerName P)"
    and "DeletionTimestamp pod = None"
    and "Containers pod = [c]"
    and "find (\<lambda>(i, k, a). PodUUID a = UID pod \<and> (Allocationstatus a = AllocationStatusCreated
            \<or> Allocationstatus a = AllocationStatusUngated)) (entries (instaslices w))
         = Some (inst, k, a)"
    and "Allocationstatus a = AllocationStatusUngated"
  shows "Reconcile P E req w = (Returned \<lparr>Requeue = False, RequeueAfter = 2 * Second\<rparr> None, w)"
proof -
  have u: "PodUUID a = UID pod"
    using find_SomeD [OF assms(8)] by auto
  have "reconcile_gated P E (instaslices w) pod w
      = (Returned \<lparr>Requeue = False, RequeueAfter = 2 * Second\<rparr> None, w)"
    by (rule reconcile_gated_first_return [OF assms(7,8)]) (simp add: u assms(9))
  then show ?thesis
    using assms(5,6) gated_pending [OF assms(4)]
    by (simp add: Reconcile_gated_prelude [OF assms(1-4)] reconcile_pod_gated)
qed

text \<open>
  Scenario A of the specification. First pass: the inventory of the node is empty and
  the placement search finds a slice; the entry is written in status creating. Second
  pass, after the node agent has set the entry to created and with a healthy device
  plugin: the entry is ungated, the node selector names the node, the gate is gone.
\<close>

lemma scenario_first_pass_allocates:
  "Reconcile (example_params\<lparr>findNodeAndDeviceForASlice := example_search\<rparr>) example_env
      (''default'', ''w1'')
      \<lparr>pods = [example_pod],
       instaslices = [(example_instaslice AllocationStatusCreating)\<lparr>Allocations := None\<rparr>],
       faults = []\<rparr>
   = (Returned Result_zero None, example_world [example_pod] AllocationStatusCreating)"
  by code_simp

lemma scenario_second_pass_ungates:
  "Reconcile example_params example_env (''default'', ''w1'')
      (example_world [example_pod, device_plugin_pod PodRunning] AllocationStatusCreated)
   = (Returned Result_zero None,
      example_world [ungated_pod, device_plugin_pod PodRunning] AllocationStatusUngated)"
  by code_simp

text \<open>
  Claim C1 (for a gated pod whose entry is created the status becomes ungated only on
  a healthy report, and an unhealthy report leaves everything unchanged). Here the
  device plugin's pod is pending, so the oracle reports unhealthy without error: the
  pass asks to be run again after two seconds, and the entry has been set to ungated
  in the inventory all the same. The pod keeps its gate.
\<close>

theorem unhealthy_report_entry_set_ungated:
  "Reconcile example_params example_env (''default'', ''w1'')
      (example_world [example_pod, device_plugin_pod PodPending] AllocationStatusCreated)
   = (Returned \<lparr>Requeue = False, RequeueAfter = 2 * Second\<rparr> None,
      example_world [example_pod, device_plugin_pod PodPending] AllocationStatusUngated)"
  by code_simp

text \<open>
  Claim C6 (for a gated pod whose entry is already ungated the pass applies the
  ungating step again: node selector and removal of the gate). Here the entry is
  ungated, the gate is present and the device plugin is healthy: the pass changes
  nothing, the pod keeps its gate and has no node selector, and the pass asks to be
  run again after two seconds.
\<close>

theorem ungated_entry_gate_not_removed:
  "Reconcile example_params example_env (''default'', ''w1'')
      (example_world [example_pod, device_plugin_pod PodRunning] AllocationStatusUngated)
   = (Returned \<lparr>Requeue = False, RequeueAfter = 2 * Second\<rparr> None,
      example_world [example_pod, device_plugin_pod PodRunning] AllocationStatusUngated)"
  by code_simp

end
